theory Spec2Isabelle
  imports Complex_Main
begin

section \<open>The flex layout orchestrator (src/flex/layout/FlexLayout.mjs)\<close>

text \<open>
  \<^verbatim>\<open>FlexLayout\<close> lays out one flex container. Its methods mutate the layout object, the
  item it belongs to and, through its collaborators, the lines and the children. The
  model passes that state explicitly: every method takes the state and returns the new
  one.
\<close>

subsection \<open>Numbers\<close>

text \<open>
  Sizes are JavaScript numbers: a real number or NaN. The source compares sizes with
  \<^verbatim>\<open>!==\<close> only, under which NaN differs from every number, itself included; \<open>strict_ne\<close>
  is that comparison. The source does no arithmetic on a size, and the infinities
  compare like any other number, so they have no constructor of their own.
\<close>

datatype number = Num real | NaN

definition strict_ne :: "number \<Rightarrow> number \<Rightarrow> bool" where
  "strict_ne a b \<longleftrightarrow> a = NaN \<or> b = NaN \<or> a \<noteq> b"

subsection \<open>Observable calls\<close>

text \<open>
  The calls the layout makes on other objects, in the order it makes them: the setter
  \<^verbatim>\<open>FlexUtils.setAxisLayoutSize(item, horizontal, v)\<close>, \<^verbatim>\<open>LineLayouter.layoutLines()\<close>,
  \<^verbatim>\<open>ContentAligner.init()\<close> and \<^verbatim>\<open>align()\<close>, \<^verbatim>\<open>ItemCoordinatesUpdater.finalize()\<close>,
  \<^verbatim>\<open>item.resetNonFlexLayout()\<close> and \<^verbatim>\<open>item.mustUpdateDeferred()\<close>.
\<close>

datatype event =
    SetAxisLayoutSize bool number
  | LayoutLines
  | AlignerInit
  | AlignerAlign
  | Finalize
  | ResetNonFlexLayout
  | MustUpdateDeferred

subsection \<open>State\<close>

text \<open>
  \<^item> \<open>horizontal\<close>, \<open>wrap\<close>: \<^verbatim>\<open>_flexContainer._horizontal\<close> and \<^verbatim>\<open>_flexContainer.wrap\<close>;
  \<^item> \<open>flexParent\<close>: \<^verbatim>\<open>item.flexParent\<close>, the enclosing flex container of the item when
    it is a flex item (an identifier here), \<open>None\<close> for \<^verbatim>\<open>null\<close>;
  \<^item> \<open>sizeW\<close>, \<open>sizeH\<close>: the configured size of the item per physical axis, the basis
    read by \<^verbatim>\<open>FlexUtils.getAxisSize\<close>; \<open>0\<close> means not fixed;
  \<^item> \<open>layoutW\<close>, \<open>layoutH\<close>: the resolved layout size of the item per physical axis,
    read and written by \<^verbatim>\<open>FlexUtils.getAxisLayoutSize\<close> and \<^verbatim>\<open>setAxisLayoutSize\<close>;
  \<^item> \<open>resizingMainAxis\<close>, \<open>resizingCrossAxis\<close>, \<open>isLayoutDeferred\<close>, \<open>totalCrossAxisSize\<close>:
    the fields \<^verbatim>\<open>_resizingMainAxis\<close>, \<^verbatim>\<open>_resizingCrossAxis\<close>, \<^verbatim>\<open>_deferLayout\<close> and
    \<^verbatim>\<open>_totalCrossAxisSize\<close> of the layout;
  \<^item> \<open>world\<close>: everything else the collaborators own (the line layouter and its lines,
    the content aligner, the children, the coordinates), of a type the orchestrator
    never looks into;
  \<^item> \<open>trace\<close>: the log of the calls made so far, oldest first.
\<close>

record 'x flex_layout =
  horizontal :: bool
  wrap :: bool
  flexParent :: "nat option"
  sizeW :: number
  sizeH :: number
  layoutW :: number
  layoutH :: number
  resizingMainAxis :: bool
  resizingCrossAxis :: bool
  isLayoutDeferred :: bool
  totalCrossAxisSize :: number
  world :: 'x
  trace :: "event list"

subsection \<open>Collaborators\<close>

text \<open>
  \<^verbatim>\<open>LineLayouter\<close>, \<^verbatim>\<open>ContentAligner\<close>, \<^verbatim>\<open>ItemCoordinatesUpdater\<close> and the item's methods
  are imported by the source and are parameters of the model: the commands are
  arbitrary transformers of the state, the queries arbitrary functions of it.
\<close>

record 'x collaborators =
  LineLayouter_layoutLines :: "'x flex_layout \<Rightarrow> 'x flex_layout"
  LineLayouter_mainAxisContentSize :: "'x flex_layout \<Rightarrow> number"
  LineLayouter_mainAxisMinSize :: "'x flex_layout \<Rightarrow> number"
  LineLayouter_crossAxisMinSize :: "'x flex_layout \<Rightarrow> number"
  ContentAligner_init :: "'x flex_layout \<Rightarrow> 'x flex_layout"
  ContentAligner_totalCrossAxisSize :: "'x flex_layout \<Rightarrow> number"
  ContentAligner_align :: "'x flex_layout \<Rightarrow> 'x flex_layout"
  ItemCoordinatesUpdater_finalize :: "'x flex_layout \<Rightarrow> 'x flex_layout"
  item_resetNonFlexLayout :: "'x flex_layout \<Rightarrow> 'x flex_layout"
  item_mustUpdateDeferred :: "'x flex_layout \<Rightarrow> 'x flex_layout"

text \<open>A call of a collaborator's command: the command runs and the call is logged.\<close>

definition call ::
  "event \<Rightarrow> ('x flex_layout \<Rightarrow> 'x flex_layout) \<Rightarrow> 'x flex_layout \<Rightarrow> 'x flex_layout" where
  "call e f s = (f s)\<lparr>trace := trace s @ [e]\<rparr>"

subsection \<open>FlexUtils\<close>

text \<open>
  \<^verbatim>\<open>FlexUtils.mjs\<close> is imported by the source and is not part of it. The spec's Axis
  Utility returns the configured basis size and gets and sets the resolved layout size
  along the axis named by the boolean (\<open>True\<close> for the horizontal axis), and is
  side-effect-free beyond the explicit setter.
\<close>

text \<open>
  Modelled from the spec: \<^verbatim>\<open>FlexUtils.getAxisSize(item, horizontal)\<close>, the configured
  basis size of the item along the axis.
\<close>

definition getAxisSize :: "'x flex_layout \<Rightarrow> bool \<Rightarrow> number" where
  "getAxisSize s h = (if h then sizeW s else sizeH s)"

text \<open>
  Modelled from the spec: \<^verbatim>\<open>FlexUtils.getAxisLayoutSize(item, horizontal)\<close>, the getter
  of the resolved layout size along the axis.
\<close>

definition getAxisLayoutSize :: "'x flex_layout \<Rightarrow> bool \<Rightarrow> number" where
  "getAxisLayoutSize s h = (if h then layoutW s else layoutH s)"

text \<open>
  Modelled from the spec: \<^verbatim>\<open>FlexUtils.setAxisLayoutSize(item, horizontal, v)\<close>, the
  setter of the resolved layout size along the axis; it stores \<open>v\<close> as it is, changes
  nothing else, and the call is logged.
\<close>

definition setAxisLayoutSize :: "bool \<Rightarrow> number \<Rightarrow> 'x flex_layout \<Rightarrow> 'x flex_layout" where
  "setAxisLayoutSize h v s =
     (if h then s\<lparr>layoutW := v, trace := trace s @ [SetAxisLayoutSize h v]\<rparr>
      else s\<lparr>layoutH := v, trace := trace s @ [SetAxisLayoutSize h v]\<rparr>)"

subsection \<open>Accessors of FlexLayout\<close>

definition getMainAxisBasis :: "'x flex_layout \<Rightarrow> number" where
  "getMainAxisBasis s = getAxisSize s (horizontal s)"

definition getCrossAxisBasis :: "'x flex_layout \<Rightarrow> number" where
  "getCrossAxisBasis s = getAxisSize s (\<not> horizontal s)"

definition mainAxisSize :: "'x flex_layout \<Rightarrow> number" where
  "mainAxisSize s = getAxisLayoutSize s (horizontal s)"

definition crossAxisSize :: "'x flex_layout \<Rightarrow> number" where
  "crossAxisSize s = getAxisLayoutSize s (\<not> horizontal s)"

definition set_mainAxisSize :: "number \<Rightarrow> 'x flex_layout \<Rightarrow> 'x flex_layout" where
  "set_mainAxisSize v s = setAxisLayoutSize (horizontal s) v s"

definition set_crossAxisSize :: "number \<Rightarrow> 'x flex_layout \<Rightarrow> 'x flex_layout" where
  "set_crossAxisSize v s = setAxisLayoutSize (\<not> horizontal s) v s"

definition isWrapping :: "'x flex_layout \<Rightarrow> bool" where
  "isWrapping s = wrap s"

definition hasFixedMainAxisBasis :: "'x flex_layout \<Rightarrow> bool" where
  "hasFixedMainAxisBasis s = strict_ne (getMainAxisBasis s) (Num 0)"

definition hasFixedCrossAxisBasis :: "'x flex_layout \<Rightarrow> bool" where
  "hasFixedCrossAxisBasis s = strict_ne (getCrossAxisBasis s) (Num 0)"

definition isMainAxisFitToContents :: "'x flex_layout \<Rightarrow> bool" where
  "isMainAxisFitToContents s = (\<not> isWrapping s \<and> \<not> hasFixedMainAxisBasis s)"

definition isCrossAxisFitToContents :: "'x flex_layout \<Rightarrow> bool" where
  "isCrossAxisFitToContents s = (\<not> hasFixedCrossAxisBasis s)"

subsection \<open>The layout pass\<close>

definition resetDeferredLayout :: "'x flex_layout \<Rightarrow> 'x flex_layout" where
  "resetDeferredLayout s = s\<lparr>isLayoutDeferred := False\<rparr>"

definition setInitialAxisSizes :: "'x flex_layout \<Rightarrow> 'x flex_layout" where
  "setInitialAxisSizes s =
     (let s1 = set_mainAxisSize (getMainAxisBasis s) s;
          s2 = set_crossAxisSize (getCrossAxisBasis s1) s1
      in s2\<lparr>resizingMainAxis := False, resizingCrossAxis := False\<rparr>)"

definition layoutLines :: "'x collaborators \<Rightarrow> 'x flex_layout \<Rightarrow> 'x flex_layout" where
  "layoutLines c s = call LayoutLines (LineLayouter_layoutLines c) s"

definition fitMainAxisSizeToContents ::
  "'x collaborators \<Rightarrow> 'x flex_layout \<Rightarrow> 'x flex_layout" where
  "fitMainAxisSizeToContents c s =
     (if \<not> resizingMainAxis s then
        (if isMainAxisFitToContents s
         then set_mainAxisSize (LineLayouter_mainAxisContentSize c s) s
         else s)
      else s)"

definition layoutMainAxis :: "'x collaborators \<Rightarrow> 'x flex_layout \<Rightarrow> 'x flex_layout" where
  "layoutMainAxis c s = fitMainAxisSizeToContents c (layoutLines c s)"

definition fitCrossAxisSizeToContents :: "'x flex_layout \<Rightarrow> 'x flex_layout" where
  "fitCrossAxisSizeToContents s =
     (if \<not> resizingCrossAxis s then
        (if isCrossAxisFitToContents s
         then set_crossAxisSize (totalCrossAxisSize s) s
         else s)
      else s)"

definition layoutCrossAxis :: "'x collaborators \<Rightarrow> 'x flex_layout \<Rightarrow> 'x flex_layout" where
  "layoutCrossAxis c s =
     (let s1 = call AlignerInit (ContentAligner_init c) s;
          s2 = s1\<lparr>totalCrossAxisSize := ContentAligner_totalCrossAxisSize c s1\<rparr>;
          s3 = fitCrossAxisSizeToContents s2
      in call AlignerAlign (ContentAligner_align c) s3)"

definition layoutAxes :: "'x collaborators \<Rightarrow> 'x flex_layout \<Rightarrow> 'x flex_layout" where
  "layoutAxes c s = layoutCrossAxis c (layoutMainAxis c s)"

definition updateTreeLayout :: "'x collaborators \<Rightarrow> 'x flex_layout \<Rightarrow> 'x flex_layout" where
  "updateTreeLayout c s = layoutAxes c (setInitialAxisSizes (resetDeferredLayout s))"

definition updateItemCoords :: "'x collaborators \<Rightarrow> 'x flex_layout \<Rightarrow> 'x flex_layout" where
  "updateItemCoords c s = call Finalize (ItemCoordinatesUpdater_finalize c) s"

definition updateTreeLayoutWithCurrentAxes ::
  "'x collaborators \<Rightarrow> 'x flex_layout \<Rightarrow> 'x flex_layout" where
  "updateTreeLayoutWithCurrentAxes c s = layoutAxes c (resetDeferredLayout s)"

definition layoutTree :: "'x collaborators \<Rightarrow> 'x flex_layout \<Rightarrow> 'x flex_layout" where
  "layoutTree c s =
     updateItemCoords c
       (if flexParent s \<noteq> None then updateTreeLayoutWithCurrentAxes c s
        else updateTreeLayout c s)"

definition deferLayout :: "'x collaborators \<Rightarrow> 'x flex_layout \<Rightarrow> 'x flex_layout" where
  "deferLayout c s =
     call MustUpdateDeferred (item_mustUpdateDeferred c)
       (call ResetNonFlexLayout (item_resetNonFlexLayout c) (s\<lparr>isLayoutDeferred := True\<rparr>))"

subsection \<open>Minimum sizes\<close>

text \<open>The queries return the value and the state they leave.\<close>

definition getMainAxisMinSize ::
  "'x collaborators \<Rightarrow> 'x flex_layout \<Rightarrow> number \<times> 'x flex_layout" where
  "getMainAxisMinSize c s =
     (let s1 = (if isLayoutDeferred s then updateTreeLayout c s else s)
      in (LineLayouter_mainAxisMinSize c s1, s1))"

definition getCrossAxisMinSize ::
  "'x collaborators \<Rightarrow> 'x flex_layout \<Rightarrow> number \<times> 'x flex_layout" where
  "getCrossAxisMinSize c s =
     (let s1 = (if isLayoutDeferred s then updateTreeLayout c s else s)
      in (LineLayouter_crossAxisMinSize c s1, s1))"

definition getAxisMinSize ::
  "'x collaborators \<Rightarrow> bool \<Rightarrow> 'x flex_layout \<Rightarrow> number \<times> 'x flex_layout" where
  "getAxisMinSize c h s =
     (if horizontal s = h then getMainAxisMinSize c s else getCrossAxisMinSize c s)"

subsection \<open>Resizing\<close>

definition resizeMainAxis ::
  "'x collaborators \<Rightarrow> number \<Rightarrow> 'x flex_layout \<Rightarrow> 'x flex_layout" where
  "resizeMainAxis c sz s =
     (let s1 = s\<lparr>resizingMainAxis := True\<rparr>;
          s2 = (if strict_ne (mainAxisSize s1) sz then layoutAxes c (set_mainAxisSize sz s1)
                else s1)
      in s2\<lparr>resizingMainAxis := False\<rparr>)"

definition resizeCrossAxis ::
  "'x collaborators \<Rightarrow> number \<Rightarrow> 'x flex_layout \<Rightarrow> 'x flex_layout" where
  "resizeCrossAxis c sz s =
     (let s1 = s\<lparr>resizingCrossAxis := True\<rparr>;
          s2 = (if strict_ne (crossAxisSize s1) sz then layoutCrossAxis c (set_crossAxisSize sz s1)
                else s1)
      in s2\<lparr>resizingCrossAxis := False\<rparr>)"


subsection \<open>Reading the log\<close>

text \<open>
  \<open>collaborator_calls\<close> keeps the calls on the line layouter, the aligner, the
  coordinates updater and the item, dropping the size setter. \<open>new_events s t\<close> is what
  \<open>t\<close> logged beyond \<open>s\<close>; \<open>calls_made s t cs\<close> says that \<open>t\<close>'s log is \<open>s\<close>'s log followed
  by events whose collaborator calls are exactly \<open>cs\<close>, in that order.
\<close>

definition collaborator_calls :: "event list \<Rightarrow> event list" where
  "collaborator_calls evs =
     filter (\<lambda>e. case e of SetAxisLayoutSize h v \<Rightarrow> False | _ \<Rightarrow> True) evs"

definition new_events :: "'x flex_layout \<Rightarrow> 'x flex_layout \<Rightarrow> event list" where
  "new_events s t = drop (length (trace s)) (trace t)"

definition calls_made :: "'x flex_layout \<Rightarrow> 'x flex_layout \<Rightarrow> event list \<Rightarrow> bool" where
  "calls_made s t cs \<longleftrightarrow>
     take (length (trace s)) (trace t) = trace s \<and> collaborator_calls (new_events s t) = cs"

subsection \<open>Collaborators that leave the container alone\<close>

text \<open>
  A command of a collaborator keeps the container when it changes neither the
  container's configuration, nor the resolved size of its item, nor the flags of its
  layout: it works on the lines, the children and the coordinates only.
\<close>

definition keeps_container :: "('x flex_layout \<Rightarrow> 'x flex_layout) \<Rightarrow> bool" where
  "keeps_container f \<longleftrightarrow>
     (\<forall>s. horizontal (f s) = horizontal s \<and> wrap (f s) = wrap s \<and>
          flexParent (f s) = flexParent s \<and>
          sizeW (f s) = sizeW s \<and> sizeH (f s) = sizeH s \<and>
          layoutW (f s) = layoutW s \<and> layoutH (f s) = layoutH s \<and>
          resizingMainAxis (f s) = resizingMainAxis s \<and>
          resizingCrossAxis (f s) = resizingCrossAxis s \<and>
          isLayoutDeferred (f s) = isLayoutDeferred s)"

definition layout_keeps_container :: "'x collaborators \<Rightarrow> bool" where
  "layout_keeps_container c \<longleftrightarrow>
     keeps_container (LineLayouter_layoutLines c) \<and>
     keeps_container (ContentAligner_init c) \<and>
     keeps_container (ContentAligner_align c)"

text \<open>
  \<open>same_setup s t\<close>: \<open>t\<close> has the configuration and the flags of \<open>s\<close> (the resolved
  sizes may differ). \<open>protected s a\<close>: the guards of the two fit-to-contents steps keep
  them off the physical axis \<open>a\<close> (\<open>True\<close> for the horizontal axis), which is the main
  axis when \<open>a = horizontal s\<close> and the cross axis otherwise.
\<close>

definition same_setup :: "'x flex_layout \<Rightarrow> 'x flex_layout \<Rightarrow> bool" where
  "same_setup s t \<longleftrightarrow>
     horizontal t = horizontal s \<and> wrap t = wrap s \<and> flexParent t = flexParent s \<and>
     sizeW t = sizeW s \<and> sizeH t = sizeH s \<and>
     resizingMainAxis t = resizingMainAxis s \<and>
     resizingCrossAxis t = resizingCrossAxis s \<and>
     isLayoutDeferred t = isLayoutDeferred s"

definition protected :: "'x flex_layout \<Rightarrow> bool \<Rightarrow> bool" where
  "protected s a \<longleftrightarrow>
     (if a = horizontal s
      then resizingMainAxis s \<or> wrap s \<or> strict_ne (getMainAxisBasis s) (Num 0)
      else resizingCrossAxis s \<or> strict_ne (getCrossAxisBasis s) (Num 0))"

subsection \<open>Non-negative sizes\<close>

text \<open>
  \<open>non_negative v\<close> is JavaScript's \<^verbatim>\<open>v >= 0\<close>, false of NaN.
  \<open>nonneg_sizes s\<close>: the configured and the resolved sizes of the item are non-negative.
  \<open>nonneg_collaborators c\<close>: every command of the collaborators that finds them so
  leaves them so, and the content sizes the layout copies into the item are then
  non-negative as well.
\<close>

definition non_negative :: "number \<Rightarrow> bool" where
  "non_negative v = (case v of Num r \<Rightarrow> 0 \<le> r | NaN \<Rightarrow> False)"

definition nonneg_sizes :: "'x flex_layout \<Rightarrow> bool" where
  "nonneg_sizes s \<longleftrightarrow>
     non_negative (sizeW s) \<and> non_negative (sizeH s) \<and>
     non_negative (layoutW s) \<and> non_negative (layoutH s)"

definition keeps_nonneg :: "('x flex_layout \<Rightarrow> 'x flex_layout) \<Rightarrow> bool" where
  "keeps_nonneg f \<longleftrightarrow> (\<forall>s. nonneg_sizes s \<longrightarrow> nonneg_sizes (f s))"

definition nonneg_collaborators :: "'x collaborators \<Rightarrow> bool" where
  "nonneg_collaborators c \<longleftrightarrow>
     keeps_nonneg (LineLayouter_layoutLines c) \<and>
     keeps_nonneg (ContentAligner_init c) \<and>
     keeps_nonneg (ContentAligner_align c) \<and>
     keeps_nonneg (ItemCoordinatesUpdater_finalize c) \<and>
     keeps_nonneg (item_resetNonFlexLayout c) \<and>
     keeps_nonneg (item_mustUpdateDeferred c) \<and>
     (\<forall>s. nonneg_sizes s \<longrightarrow>
        non_negative (LineLayouter_mainAxisContentSize c s) \<and>
        non_negative (ContentAligner_totalCrossAxisSize c s))"

definition nonneg_resolved :: "'x flex_layout \<Rightarrow> bool" where
  "nonneg_resolved s \<longleftrightarrow> non_negative (mainAxisSize s) \<and> non_negative (crossAxisSize s)"

subsection \<open>A small instance: one line of fixed-size children\<close>

text \<open>
  Collaborators for a container whose children have fixed whole-number sizes and sit on
  one line: the line's main size is the sum of the children's main sizes, its cross size
  the largest of their cross sizes, and finalizing the coordinates stores the offset of
  each child along the line. They serve to run the layout on concrete containers.
\<close>

fun offsets :: "nat \<Rightarrow> nat list \<Rightarrow> nat list" where
  "offsets x [] = []"
| "offsets x (w # ws) = x # offsets (x + w) ws"

record single_line =
  items :: "(nat \<times> nat) list"
  lineMainSize :: nat
  lineCrossSize :: nat
  itemCoords :: "nat list"

definition single_line_collaborators :: "single_line collaborators" where
  "single_line_collaborators =
     \<lparr>LineLayouter_layoutLines = (\<lambda>s. s\<lparr>world := (world s)
          \<lparr>lineMainSize := sum_list (map fst (items (world s))),
           lineCrossSize := fold max (map snd (items (world s))) 0\<rparr>\<rparr>),
      LineLayouter_mainAxisContentSize = (\<lambda>s. Num (real (lineMainSize (world s)))),
      LineLayouter_mainAxisMinSize = (\<lambda>s. Num (real (lineMainSize (world s)))),
      LineLayouter_crossAxisMinSize = (\<lambda>s. Num (real (lineCrossSize (world s)))),
      ContentAligner_init = (\<lambda>s. s),
      ContentAligner_totalCrossAxisSize = (\<lambda>s. Num (real (lineCrossSize (world s)))),
      ContentAligner_align = (\<lambda>s. s),
      ItemCoordinatesUpdater_finalize = (\<lambda>s. s\<lparr>world := (world s)
          \<lparr>itemCoords := offsets 0 (map fst (items (world s)))\<rparr>\<rparr>),
      item_resetNonFlexLayout = (\<lambda>s. s),
      item_mustUpdateDeferred = (\<lambda>s. s)\<rparr>"

text \<open>A row with no fixed size holding children of sizes 5 x 2 and 5 x 3.\<close>

definition row_of_two :: "single_line flex_layout" where
  "row_of_two =
     \<lparr>horizontal = True, wrap = False, flexParent = None,
      sizeW = Num 0, sizeH = Num 0, layoutW = Num 0, layoutH = Num 0,
      resizingMainAxis = False, resizingCrossAxis = False, isLayoutDeferred = False,
      totalCrossAxisSize = Num 0,
      world = \<lparr>items = [(5, 2), (5, 3)], lineMainSize = 0, lineCrossSize = 0,
               itemCoords = []\<rparr>,
      trace = []\<rparr>"

text \<open>
  The same row as a flex item of container 0, with a fixed width of 100, and the state
  its parent leaves it in: laid out from its basis, then shrunk to 50.
\<close>

definition fixed_row_item :: "single_line flex_layout" where
  "fixed_row_item = row_of_two\<lparr>flexParent := Some 0, sizeW := Num 100\<rparr>"

definition shrunk_row_item :: "single_line flex_layout" where
  "shrunk_row_item =
     resizeMainAxis single_line_collaborators (Num 50)
       (updateTreeLayout single_line_collaborators fixed_row_item)"

section \<open>Basic facts\<close>

lemma strict_ne_Num: "strict_ne a (Num r) \<longleftrightarrow> a \<noteq> Num r"
  by (auto simp: strict_ne_def)

lemma strict_ne_NaN: "strict_ne a NaN" "strict_ne NaN b"
  by (simp_all add: strict_ne_def)

lemma not_strict_ne: "\<not> strict_ne a b \<longleftrightarrow> a = b \<and> b \<noteq> NaN"
  by (auto simp: strict_ne_def)

lemmas flexutils_defs = getAxisSize_def getAxisLayoutSize_def setAxisLayoutSize_def

lemmas accessor_defs = getMainAxisBasis_def getCrossAxisBasis_def mainAxisSize_def
  crossAxisSize_def set_mainAxisSize_def set_crossAxisSize_def isWrapping_def
  hasFixedMainAxisBasis_def hasFixedCrossAxisBasis_def isMainAxisFitToContents_def
  isCrossAxisFitToContents_def

lemmas pass_defs = call_def resetDeferredLayout_def setInitialAxisSizes_def layoutLines_def
  fitMainAxisSizeToContents_def layoutMainAxis_def fitCrossAxisSizeToContents_def
  layoutCrossAxis_def layoutAxes_def updateTreeLayout_def updateItemCoords_def
  updateTreeLayoutWithCurrentAxes_def layoutTree_def deferLayout_def

lemmas query_defs = getMainAxisMinSize_def getCrossAxisMinSize_def getAxisMinSize_def

lemmas resize_defs = resizeMainAxis_def resizeCrossAxis_def

lemmas log_defs = collaborator_calls_def new_events_def calls_made_def

lemmas instance_defs = single_line_collaborators_def row_of_two_def

subsection \<open>The log only grows\<close>

lemma calls_madeI:
  "trace t = trace s @ evs \<Longrightarrow> collaborator_calls evs = cs \<Longrightarrow> calls_made s t cs"
  by (simp add: calls_made_def new_events_def)

lemma calls_madeD:
  assumes "calls_made s t cs"
  shows "\<exists>evs. trace t = trace s @ evs \<and> collaborator_calls evs = cs"
proof -
  let ?evs = "drop (length (trace s)) (trace t)"
  from assms have "take (length (trace s)) (trace t) = trace s"
    and calls: "collaborator_calls ?evs = cs"
    by (simp_all add: calls_made_def new_events_def)
  then have "trace t = trace s @ ?evs"
    by (metis append_take_drop_id)
  with calls show ?thesis by blast
qed

lemma calls_made_trans:
  assumes "calls_made s t a" and "calls_made t u b"
  shows "calls_made s u (a @ b)"
proof -
  from calls_madeD [OF assms(1)] obtain e1
    where e1: "trace t = trace s @ e1" "collaborator_calls e1 = a" by blast
  from calls_madeD [OF assms(2)] obtain e2
    where e2: "trace u = trace t @ e2" "collaborator_calls e2 = b" by blast
  have "trace u = trace s @ (e1 @ e2)" using e1 e2 by simp
  moreover have "collaborator_calls (e1 @ e2) = a @ b"
    using e1 e2 by (simp add: collaborator_calls_def)
  ultimately show ?thesis by (rule calls_madeI)
qed

lemma calls_made_call:
  "\<forall>h v. e \<noteq> SetAxisLayoutSize h v \<Longrightarrow> calls_made s (call e f s) [e]"
  by (rule calls_madeI [where evs = "[e]"])
     (auto simp: call_def collaborator_calls_def split: event.splits)

lemma calls_made_setAxisLayoutSize: "calls_made s (setAxisLayoutSize h v s) []"
  by (rule calls_madeI [where evs = "[SetAxisLayoutSize h v]"])
     (simp_all add: setAxisLayoutSize_def collaborator_calls_def)

lemma calls_made_same_trace: "trace t = trace s \<Longrightarrow> calls_made s t []"
  by (rule calls_madeI [where evs = "[]"]) (simp_all add: collaborator_calls_def)

lemma calls_made_resetDeferredLayout: "calls_made s (resetDeferredLayout s) []"
  by (rule calls_made_same_trace) (simp add: resetDeferredLayout_def)

lemma calls_made_setInitialAxisSizes: "calls_made s (setInitialAxisSizes s) []"
proof -
  let ?s1 = "set_mainAxisSize (getMainAxisBasis s) s"
  let ?s2 = "set_crossAxisSize (getCrossAxisBasis ?s1) ?s1"
  have 1: "calls_made s ?s1 []"
    unfolding set_mainAxisSize_def by (rule calls_made_setAxisLayoutSize)
  have 2: "calls_made ?s1 ?s2 []"
    unfolding set_crossAxisSize_def by (rule calls_made_setAxisLayoutSize)
  have 3: "calls_made ?s2 (setInitialAxisSizes s) []"
    by (rule calls_made_same_trace) (simp add: setInitialAxisSizes_def Let_def)
  have "calls_made s (setInitialAxisSizes s) (([] @ []) @ [])"
    by (rule calls_made_trans [OF calls_made_trans [OF 1 2] 3])
  then show ?thesis by simp
qed

lemma calls_made_layoutLines: "calls_made s (layoutLines c s) [LayoutLines]"
  unfolding layoutLines_def by (rule calls_made_call) simp

lemma calls_made_fitMainAxisSizeToContents:
  "calls_made s (fitMainAxisSizeToContents c s) []"
  unfolding fitMainAxisSizeToContents_def set_mainAxisSize_def
  by (simp add: calls_made_setAxisLayoutSize calls_made_same_trace)

lemma calls_made_fitCrossAxisSizeToContents:
  "calls_made s (fitCrossAxisSizeToContents s) []"
  unfolding fitCrossAxisSizeToContents_def set_crossAxisSize_def
  by (simp add: calls_made_setAxisLayoutSize calls_made_same_trace)

lemma calls_made_layoutMainAxis: "calls_made s (layoutMainAxis c s) [LayoutLines]"
  unfolding layoutMainAxis_def
  using calls_made_trans [OF calls_made_layoutLines calls_made_fitMainAxisSizeToContents]
  by simp

lemma calls_made_layoutCrossAxis:
  "calls_made s (layoutCrossAxis c s) [AlignerInit, AlignerAlign]"
proof -
  let ?s1 = "call AlignerInit (ContentAligner_init c) s"
  let ?s2 = "?s1\<lparr>totalCrossAxisSize := ContentAligner_totalCrossAxisSize c ?s1\<rparr>"
  let ?s3 = "fitCrossAxisSizeToContents ?s2"
  have 1: "calls_made s ?s1 [AlignerInit]" by (rule calls_made_call) simp
  have 2: "calls_made ?s1 ?s2 []" by (rule calls_made_same_trace) simp
  have 3: "calls_made ?s2 ?s3 []" by (rule calls_made_fitCrossAxisSizeToContents)
  have 4: "calls_made ?s3 (call AlignerAlign (ContentAligner_align c) ?s3) [AlignerAlign]"
    by (rule calls_made_call) simp
  have "calls_made s (call AlignerAlign (ContentAligner_align c) ?s3)
          ((([AlignerInit] @ []) @ []) @ [AlignerAlign])"
    by (rule calls_made_trans [OF calls_made_trans [OF calls_made_trans [OF 1 2] 3] 4])
  then show ?thesis by (simp add: layoutCrossAxis_def Let_def)
qed

lemma calls_made_layoutAxes:
  "calls_made s (layoutAxes c s) [LayoutLines, AlignerInit, AlignerAlign]"
  unfolding layoutAxes_def
  using calls_made_trans [OF calls_made_layoutMainAxis calls_made_layoutCrossAxis]
  by simp

lemma calls_made_updateTreeLayout:
  "calls_made s (updateTreeLayout c s) [LayoutLines, AlignerInit, AlignerAlign]"
  unfolding updateTreeLayout_def
  using calls_made_trans [OF calls_made_trans
      [OF calls_made_resetDeferredLayout calls_made_setInitialAxisSizes] calls_made_layoutAxes]
  by simp

lemma calls_made_updateTreeLayoutWithCurrentAxes:
  "calls_made s (updateTreeLayoutWithCurrentAxes c s) [LayoutLines, AlignerInit, AlignerAlign]"
  unfolding updateTreeLayoutWithCurrentAxes_def
  using calls_made_trans [OF calls_made_resetDeferredLayout calls_made_layoutAxes]
  by simp


subsection \<open>What the layout pass leaves alone\<close>

lemma same_setup_refl: "same_setup s s"
  by (simp add: same_setup_def)

lemma same_setup_trans: "same_setup s t \<Longrightarrow> same_setup t u \<Longrightarrow> same_setup s u"
  by (simp add: same_setup_def)

lemma same_setup_call: "keeps_container f \<Longrightarrow> same_setup s (call e f s)"
  by (simp add: same_setup_def keeps_container_def call_def)

lemma same_setup_setAxisLayoutSize: "same_setup s (setAxisLayoutSize h v s)"
  by (simp add: same_setup_def setAxisLayoutSize_def)

lemma same_setup_fitMainAxisSizeToContents: "same_setup s (fitMainAxisSizeToContents c s)"
  unfolding fitMainAxisSizeToContents_def set_mainAxisSize_def
  by (simp add: same_setup_setAxisLayoutSize same_setup_refl)

lemma same_setup_fitCrossAxisSizeToContents: "same_setup s (fitCrossAxisSizeToContents s)"
  unfolding fitCrossAxisSizeToContents_def set_crossAxisSize_def
  by (simp add: same_setup_setAxisLayoutSize same_setup_refl)

lemma same_setup_layoutLines:
  "layout_keeps_container c \<Longrightarrow> same_setup s (layoutLines c s)"
  unfolding layoutLines_def by (rule same_setup_call) (simp add: layout_keeps_container_def)

lemma same_setup_layoutMainAxis:
  "layout_keeps_container c \<Longrightarrow> same_setup s (layoutMainAxis c s)"
  unfolding layoutMainAxis_def
  by (rule same_setup_trans [OF same_setup_layoutLines same_setup_fitMainAxisSizeToContents])

lemma same_setup_totalCrossAxisSize: "same_setup s (s\<lparr>totalCrossAxisSize := v\<rparr>)"
  by (simp add: same_setup_def)

lemma same_setup_layoutCrossAxis:
  assumes "layout_keeps_container c"
  shows "same_setup s (layoutCrossAxis c s)"
proof -
  let ?s1 = "call AlignerInit (ContentAligner_init c) s"
  let ?s2 = "?s1\<lparr>totalCrossAxisSize := ContentAligner_totalCrossAxisSize c ?s1\<rparr>"
  let ?s3 = "fitCrossAxisSizeToContents ?s2"
  from assms have k: "keeps_container (ContentAligner_init c)"
    "keeps_container (ContentAligner_align c)"
    by (simp_all add: layout_keeps_container_def)
  have 1: "same_setup s ?s1" by (rule same_setup_call [OF k(1)])
  have 2: "same_setup ?s1 ?s2" by (rule same_setup_totalCrossAxisSize)
  have 3: "same_setup ?s2 ?s3" by (rule same_setup_fitCrossAxisSizeToContents)
  have 4: "same_setup ?s3 (call AlignerAlign (ContentAligner_align c) ?s3)"
    by (rule same_setup_call [OF k(2)])
  have "same_setup s (call AlignerAlign (ContentAligner_align c) ?s3)"
    by (rule same_setup_trans [OF same_setup_trans [OF same_setup_trans [OF 1 2] 3] 4])
  then show ?thesis by (simp add: layoutCrossAxis_def Let_def)
qed

lemma same_setup_layoutAxes:
  "layout_keeps_container c \<Longrightarrow> same_setup s (layoutAxes c s)"
  unfolding layoutAxes_def
  by (rule same_setup_trans [OF same_setup_layoutMainAxis same_setup_layoutCrossAxis])

lemma protected_same_setup: "same_setup s t \<Longrightarrow> protected t a = protected s a"
  by (simp add: same_setup_def protected_def getMainAxisBasis_def getCrossAxisBasis_def
      getAxisSize_def)

lemma getAxisSize_same_setup: "same_setup s t \<Longrightarrow> getAxisSize t a = getAxisSize s a"
  by (simp add: same_setup_def getAxisSize_def)

lemma size_call:
  "keeps_container f \<Longrightarrow> getAxisLayoutSize (call e f s) a = getAxisLayoutSize s a"
  by (simp add: keeps_container_def call_def getAxisLayoutSize_def)

lemma size_setAxisLayoutSize:
  "getAxisLayoutSize (setAxisLayoutSize h v s) a = (if a = h then v else getAxisLayoutSize s a)"
  by (simp add: setAxisLayoutSize_def getAxisLayoutSize_def)

lemma size_fitMainAxisSizeToContents:
  "protected s a \<Longrightarrow>
   getAxisLayoutSize (fitMainAxisSizeToContents c s) a = getAxisLayoutSize s a"
  by (auto simp: protected_def fitMainAxisSizeToContents_def isMainAxisFitToContents_def
      hasFixedMainAxisBasis_def isWrapping_def set_mainAxisSize_def size_setAxisLayoutSize
      split: if_splits)

lemma size_fitCrossAxisSizeToContents:
  "protected s a \<Longrightarrow> getAxisLayoutSize (fitCrossAxisSizeToContents s) a = getAxisLayoutSize s a"
  by (auto simp: protected_def fitCrossAxisSizeToContents_def isCrossAxisFitToContents_def
      hasFixedCrossAxisBasis_def set_crossAxisSize_def size_setAxisLayoutSize
      split: if_splits)

lemma size_layoutMainAxis:
  assumes "layout_keeps_container c" and "protected s a"
  shows "getAxisLayoutSize (layoutMainAxis c s) a = getAxisLayoutSize s a"
proof -
  from assms(1) have k: "keeps_container (LineLayouter_layoutLines c)"
    by (simp add: layout_keeps_container_def)
  have "protected (layoutLines c s) a"
    using assms protected_same_setup [OF same_setup_layoutLines] by blast
  then have "getAxisLayoutSize (layoutMainAxis c s) a = getAxisLayoutSize (layoutLines c s) a"
    unfolding layoutMainAxis_def by (rule size_fitMainAxisSizeToContents)
  also have "\<dots> = getAxisLayoutSize s a"
    unfolding layoutLines_def by (rule size_call [OF k])
  finally show ?thesis .
qed

lemma size_layoutCrossAxis:
  assumes "layout_keeps_container c" and "protected s a"
  shows "getAxisLayoutSize (layoutCrossAxis c s) a = getAxisLayoutSize s a"
proof -
  let ?s1 = "call AlignerInit (ContentAligner_init c) s"
  let ?s2 = "?s1\<lparr>totalCrossAxisSize := ContentAligner_totalCrossAxisSize c ?s1\<rparr>"
  let ?s3 = "fitCrossAxisSizeToContents ?s2"
  from assms(1) have k: "keeps_container (ContentAligner_init c)"
    "keeps_container (ContentAligner_align c)"
    by (simp_all add: layout_keeps_container_def)
  have "same_setup s ?s2"
    by (rule same_setup_trans [OF same_setup_call [OF k(1)] same_setup_totalCrossAxisSize])
  with assms(2) have p: "protected ?s2 a" by (simp add: protected_same_setup)
  have "getAxisLayoutSize (call AlignerAlign (ContentAligner_align c) ?s3) a
          = getAxisLayoutSize ?s3 a"
    by (rule size_call [OF k(2)])
  also have "\<dots> = getAxisLayoutSize ?s2 a"
    by (rule size_fitCrossAxisSizeToContents [OF p])
  also have "\<dots> = getAxisLayoutSize ?s1 a" by (simp add: getAxisLayoutSize_def)
  also have "\<dots> = getAxisLayoutSize s a" by (rule size_call [OF k(1)])
  finally show ?thesis by (simp add: layoutCrossAxis_def Let_def)
qed

lemma size_layoutAxes:
  assumes "layout_keeps_container c" and "protected s a"
  shows "getAxisLayoutSize (layoutAxes c s) a = getAxisLayoutSize s a"
proof -
  have "protected (layoutMainAxis c s) a"
    using assms protected_same_setup [OF same_setup_layoutMainAxis] by blast
  with assms(1) have "getAxisLayoutSize (layoutAxes c s) a
      = getAxisLayoutSize (layoutMainAxis c s) a"
    unfolding layoutAxes_def by (rule size_layoutCrossAxis)
  then show ?thesis using assms by (simp add: size_layoutMainAxis)
qed

subsection \<open>Resizing\<close>

lemma resizeMainAxis_same:
  "\<not> strict_ne (mainAxisSize s) sz \<Longrightarrow>
   resizeMainAxis c sz s = s\<lparr>resizingMainAxis := False\<rparr>"
  by (auto simp: resizeMainAxis_def Let_def mainAxisSize_def getAxisLayoutSize_def
      split: if_splits)

lemma resizeCrossAxis_same:
  "\<not> strict_ne (crossAxisSize s) sz \<Longrightarrow>
   resizeCrossAxis c sz s = s\<lparr>resizingCrossAxis := False\<rparr>"
  by (auto simp: resizeCrossAxis_def Let_def crossAxisSize_def getAxisLayoutSize_def
      split: if_splits)

lemma resizeMainAxis_changed:
  "strict_ne (mainAxisSize s) sz \<Longrightarrow>
   resizeMainAxis c sz s
     = (layoutAxes c (set_mainAxisSize sz (s\<lparr>resizingMainAxis := True\<rparr>)))
         \<lparr>resizingMainAxis := False\<rparr>"
  by (auto simp: resizeMainAxis_def Let_def mainAxisSize_def getAxisLayoutSize_def
      split: if_splits)

lemma resizeCrossAxis_changed:
  "strict_ne (crossAxisSize s) sz \<Longrightarrow>
   resizeCrossAxis c sz s
     = (layoutCrossAxis c (set_crossAxisSize sz (s\<lparr>resizingCrossAxis := True\<rparr>)))
         \<lparr>resizingCrossAxis := False\<rparr>"
  by (auto simp: resizeCrossAxis_def Let_def crossAxisSize_def getAxisLayoutSize_def
      split: if_splits)

lemma calls_made_resizeMainAxis:
  assumes "strict_ne (mainAxisSize s) sz"
  shows "calls_made s (resizeMainAxis c sz s) [LayoutLines, AlignerInit, AlignerAlign]"
proof -
  let ?s1 = "s\<lparr>resizingMainAxis := True\<rparr>"
  let ?s2 = "set_mainAxisSize sz ?s1"
  let ?s3 = "layoutAxes c ?s2"
  have 1: "calls_made s ?s1 []" by (rule calls_made_same_trace) simp
  have 2: "calls_made ?s1 ?s2 []"
    unfolding set_mainAxisSize_def by (rule calls_made_setAxisLayoutSize)
  have 3: "calls_made ?s2 ?s3 [LayoutLines, AlignerInit, AlignerAlign]"
    by (rule calls_made_layoutAxes)
  have 4: "calls_made ?s3 (?s3\<lparr>resizingMainAxis := False\<rparr>) []"
    by (rule calls_made_same_trace) simp
  have "calls_made s (?s3\<lparr>resizingMainAxis := False\<rparr>)
          ((([] @ []) @ [LayoutLines, AlignerInit, AlignerAlign]) @ [])"
    by (rule calls_made_trans [OF calls_made_trans [OF calls_made_trans [OF 1 2] 3] 4])
  then show ?thesis using assms by (simp add: resizeMainAxis_changed)
qed

lemma calls_made_resizeCrossAxis:
  assumes "strict_ne (crossAxisSize s) sz"
  shows "calls_made s (resizeCrossAxis c sz s) [AlignerInit, AlignerAlign]"
proof -
  let ?s1 = "s\<lparr>resizingCrossAxis := True\<rparr>"
  let ?s2 = "set_crossAxisSize sz ?s1"
  let ?s3 = "layoutCrossAxis c ?s2"
  have 1: "calls_made s ?s1 []" by (rule calls_made_same_trace) simp
  have 2: "calls_made ?s1 ?s2 []"
    unfolding set_crossAxisSize_def by (rule calls_made_setAxisLayoutSize)
  have 3: "calls_made ?s2 ?s3 [AlignerInit, AlignerAlign]"
    by (rule calls_made_layoutCrossAxis)
  have 4: "calls_made ?s3 (?s3\<lparr>resizingCrossAxis := False\<rparr>) []"
    by (rule calls_made_same_trace) simp
  have "calls_made s (?s3\<lparr>resizingCrossAxis := False\<rparr>)
          ((([] @ []) @ [AlignerInit, AlignerAlign]) @ [])"
    by (rule calls_made_trans [OF calls_made_trans [OF calls_made_trans [OF 1 2] 3] 4])
  then show ?thesis using assms by (simp add: resizeCrossAxis_changed)
qed

subsection \<open>How a pass begins and ends\<close>

lemma trace_layoutAxes_first:
  "\<exists>evs. trace (layoutAxes c s) = trace s @ LayoutLines # evs"
proof -
  have 0: "trace (layoutLines c s) = trace s @ [LayoutLines]"
    by (simp add: layoutLines_def call_def)
  from calls_madeD [OF calls_made_fitMainAxisSizeToContents [of "layoutLines c s" c]]
  obtain e1 where 1: "trace (layoutMainAxis c s) = trace (layoutLines c s) @ e1"
    unfolding layoutMainAxis_def by blast
  from calls_madeD [OF calls_made_layoutCrossAxis [of "layoutMainAxis c s" c]]
  obtain e2 where 2: "trace (layoutAxes c s) = trace (layoutMainAxis c s) @ e2"
    unfolding layoutAxes_def by blast
  from 0 1 2 have "trace (layoutAxes c s) = trace s @ LayoutLines # (e1 @ e2)" by simp
  then show ?thesis by blast
qed

lemma trace_setInitialAxisSizes:
  "trace (setInitialAxisSizes s)
     = trace s @ [SetAxisLayoutSize (horizontal s) (getMainAxisBasis s),
                  SetAxisLayoutSize (\<not> horizontal s) (getCrossAxisBasis s)]"
  by (simp add: setInitialAxisSizes_def Let_def set_mainAxisSize_def set_crossAxisSize_def
      getMainAxisBasis_def getCrossAxisBasis_def flexutils_defs)

lemma trace_updateTreeLayout_first:
  "\<exists>evs. trace (updateTreeLayout c s)
     = trace s @ SetAxisLayoutSize (horizontal s) (getMainAxisBasis s)
         # SetAxisLayoutSize (\<not> horizontal s) (getCrossAxisBasis s) # LayoutLines # evs"
proof -
  let ?s0 = "setInitialAxisSizes (resetDeferredLayout s)"
  from trace_layoutAxes_first [of c ?s0]
  obtain evs where "trace (updateTreeLayout c s) = trace ?s0 @ LayoutLines # evs"
    unfolding updateTreeLayout_def by blast
  moreover have "trace ?s0
     = trace s @ [SetAxisLayoutSize (horizontal s) (getMainAxisBasis s),
                  SetAxisLayoutSize (\<not> horizontal s) (getCrossAxisBasis s)]"
    by (simp add: trace_setInitialAxisSizes)
       (simp add: resetDeferredLayout_def getMainAxisBasis_def getCrossAxisBasis_def
          getAxisSize_def)
  ultimately show ?thesis by simp
qed

lemma calls_made_layoutTree:
  "calls_made s (layoutTree c s) [LayoutLines, AlignerInit, AlignerAlign, Finalize]"
proof -
  let ?t = "if flexParent s \<noteq> None then updateTreeLayoutWithCurrentAxes c s
            else updateTreeLayout c s"
  have 1: "calls_made s ?t [LayoutLines, AlignerInit, AlignerAlign]"
    by (simp add: calls_made_updateTreeLayout calls_made_updateTreeLayoutWithCurrentAxes)
  have 2: "calls_made ?t (call Finalize (ItemCoordinatesUpdater_finalize c) ?t) [Finalize]"
    by (rule calls_made_call) simp
  from calls_made_trans [OF 1 2] show ?thesis
    by (simp add: layoutTree_def updateItemCoords_def)
qed

lemma new_events_append: "trace t = trace s @ evs \<Longrightarrow> new_events s t = evs"
  by (simp add: new_events_def)

lemma trace_layoutTree_last: "last (trace (layoutTree c s)) = Finalize"
  by (simp add: layoutTree_def updateItemCoords_def call_def)

lemma new_events_layoutTree_subtree:
  assumes "flexParent s \<noteq> None"
  shows "take 1 (new_events s (layoutTree c s)) = [LayoutLines]"
proof -
  from trace_layoutAxes_first [of c "resetDeferredLayout s"]
  obtain evs where "trace (updateTreeLayoutWithCurrentAxes c s) = trace s @ LayoutLines # evs"
    unfolding updateTreeLayoutWithCurrentAxes_def by (auto simp: resetDeferredLayout_def)
  with assms have "trace (layoutTree c s) = trace s @ LayoutLines # (evs @ [Finalize])"
    by (simp add: layoutTree_def updateItemCoords_def call_def)
  then show ?thesis by (simp add: new_events_append)
qed

lemma new_events_layoutTree_root:
  assumes "flexParent s = None"
  shows "take 3 (new_events s (layoutTree c s))
    = [SetAxisLayoutSize (horizontal s) (getMainAxisBasis s),
       SetAxisLayoutSize (\<not> horizontal s) (getCrossAxisBasis s), LayoutLines]"
proof -
  from trace_updateTreeLayout_first [of c s]
  obtain evs where "trace (updateTreeLayout c s)
     = trace s @ SetAxisLayoutSize (horizontal s) (getMainAxisBasis s)
         # SetAxisLayoutSize (\<not> horizontal s) (getCrossAxisBasis s) # LayoutLines # evs"
    by blast
  with assms have "trace (layoutTree c s)
     = trace s @ SetAxisLayoutSize (horizontal s) (getMainAxisBasis s)
         # SetAxisLayoutSize (\<not> horizontal s) (getCrossAxisBasis s) # LayoutLines
         # (evs @ [Finalize])"
    by (simp add: layoutTree_def updateItemCoords_def call_def)
  then show ?thesis by (simp add: new_events_append)
qed

subsection \<open>The instance keeps the container\<close>

lemma single_line_keeps_container: "layout_keeps_container single_line_collaborators"
  by (simp add: layout_keeps_container_def keeps_container_def single_line_collaborators_def)

lemma single_line_finalize_keeps_container:
  "keeps_container (ItemCoordinatesUpdater_finalize single_line_collaborators)"
  by (simp add: keeps_container_def single_line_collaborators_def)

subsection \<open>The state after a full pass and after a resize\<close>

lemma updateTreeLayout_setup:
  assumes "layout_keeps_container c"
  shows "horizontal (updateTreeLayout c s) = horizontal s"
    and "\<not> isLayoutDeferred (updateTreeLayout c s)"
proof -
  let ?s0 = "setInitialAxisSizes (resetDeferredLayout s)"
  have "same_setup ?s0 (updateTreeLayout c s)"
    unfolding updateTreeLayout_def by (rule same_setup_layoutAxes [OF assms])
  then have "horizontal (updateTreeLayout c s) = horizontal ?s0"
    and "isLayoutDeferred (updateTreeLayout c s) = isLayoutDeferred ?s0"
    by (simp_all add: same_setup_def)
  moreover have "horizontal ?s0 = horizontal s" and "\<not> isLayoutDeferred ?s0"
    by (simp_all add: setInitialAxisSizes_def resetDeferredLayout_def Let_def
        set_mainAxisSize_def set_crossAxisSize_def setAxisLayoutSize_def)
  ultimately show "horizontal (updateTreeLayout c s) = horizontal s"
    and "\<not> isLayoutDeferred (updateTreeLayout c s)" by simp_all
qed

lemma mainAxisSize_flag: "mainAxisSize (s\<lparr>resizingMainAxis := b\<rparr>) = mainAxisSize s"
  by (simp add: mainAxisSize_def getAxisLayoutSize_def)

lemma crossAxisSize_flag: "crossAxisSize (s\<lparr>resizingCrossAxis := b\<rparr>) = crossAxisSize s"
  by (simp add: crossAxisSize_def getAxisLayoutSize_def)

lemma mainAxisSize_resizeMainAxis:
  assumes "layout_keeps_container c"
  shows "mainAxisSize (resizeMainAxis c sz s) = sz"
proof (cases "strict_ne (mainAxisSize s) sz")
  case False
  then show ?thesis
    by (simp add: resizeMainAxis_same mainAxisSize_flag) (simp add: not_strict_ne)
next
  case True
  let ?s2 = "set_mainAxisSize sz (s\<lparr>resizingMainAxis := True\<rparr>)"
  let ?s3 = "layoutAxes c ?s2"
  have h2: "horizontal ?s2 = horizontal s" and r2: "resizingMainAxis ?s2"
    and v2: "getAxisLayoutSize ?s2 (horizontal s) = sz"
    by (simp_all add: set_mainAxisSize_def setAxisLayoutSize_def getAxisLayoutSize_def)
  from h2 r2 have "protected ?s2 (horizontal s)" by (simp add: protected_def)
  with assms have "getAxisLayoutSize ?s3 (horizontal s) = getAxisLayoutSize ?s2 (horizontal s)"
    by (rule size_layoutAxes)
  moreover have "horizontal ?s3 = horizontal ?s2"
    using same_setup_layoutAxes [OF assms, of ?s2] by (simp add: same_setup_def)
  ultimately have "mainAxisSize (?s3\<lparr>resizingMainAxis := False\<rparr>) = sz"
    using h2 v2 by (simp add: mainAxisSize_flag) (simp add: mainAxisSize_def)
  with True show ?thesis by (simp add: resizeMainAxis_changed)
qed

lemma crossAxisSize_resizeCrossAxis:
  assumes "layout_keeps_container c"
  shows "crossAxisSize (resizeCrossAxis c sz s) = sz"
proof (cases "strict_ne (crossAxisSize s) sz")
  case False
  then show ?thesis
    by (simp add: resizeCrossAxis_same crossAxisSize_flag) (simp add: not_strict_ne)
next
  case True
  let ?s2 = "set_crossAxisSize sz (s\<lparr>resizingCrossAxis := True\<rparr>)"
  let ?s3 = "layoutCrossAxis c ?s2"
  have h2: "horizontal ?s2 = horizontal s" and r2: "resizingCrossAxis ?s2"
    and v2: "getAxisLayoutSize ?s2 (\<not> horizontal s) = sz"
    by (simp_all add: set_crossAxisSize_def setAxisLayoutSize_def getAxisLayoutSize_def)
  from h2 r2 have "protected ?s2 (\<not> horizontal s)" by (simp add: protected_def)
  with assms have "getAxisLayoutSize ?s3 (\<not> horizontal s)
      = getAxisLayoutSize ?s2 (\<not> horizontal s)"
    by (rule size_layoutCrossAxis)
  moreover have "horizontal ?s3 = horizontal ?s2"
    using same_setup_layoutCrossAxis [OF assms, of ?s2] by (simp add: same_setup_def)
  ultimately have "crossAxisSize (?s3\<lparr>resizingCrossAxis := False\<rparr>) = sz"
    using h2 v2 by (simp add: crossAxisSize_flag) (simp add: crossAxisSize_def)
  with True show ?thesis by (simp add: resizeCrossAxis_changed)
qed

lemma resizeMainAxis_twice:
  assumes "layout_keeps_container c" and "sz \<noteq> NaN"
  shows "resizeMainAxis c sz (resizeMainAxis c sz s) = resizeMainAxis c sz s"
proof -
  let ?t = "resizeMainAxis c sz s"
  have "\<not> resizingMainAxis ?t" by (simp add: resizeMainAxis_def Let_def)
  then have flag: "?t\<lparr>resizingMainAxis := False\<rparr> = ?t" by simp
  have "\<not> strict_ne (mainAxisSize ?t) sz"
    using assms by (simp add: not_strict_ne mainAxisSize_resizeMainAxis)
  then have "resizeMainAxis c sz ?t = ?t\<lparr>resizingMainAxis := False\<rparr>"
    by (rule resizeMainAxis_same)
  with flag show ?thesis by simp
qed

lemma resizeCrossAxis_twice:
  assumes "layout_keeps_container c" and "sz \<noteq> NaN"
  shows "resizeCrossAxis c sz (resizeCrossAxis c sz s) = resizeCrossAxis c sz s"
proof -
  let ?t = "resizeCrossAxis c sz s"
  have "\<not> resizingCrossAxis ?t" by (simp add: resizeCrossAxis_def Let_def)
  then have flag: "?t\<lparr>resizingCrossAxis := False\<rparr> = ?t" by simp
  have "\<not> strict_ne (crossAxisSize ?t) sz"
    using assms by (simp add: not_strict_ne crossAxisSize_resizeCrossAxis)
  then have "resizeCrossAxis c sz ?t = ?t\<lparr>resizingCrossAxis := False\<rparr>"
    by (rule resizeCrossAxis_same)
  with flag show ?thesis by simp
qed

subsection \<open>An axis with a fixed basis\<close>

lemma fixed_basis_protected: "getAxisSize s a \<noteq> Num 0 \<Longrightarrow> protected s a"
  by (auto simp: protected_def getMainAxisBasis_def getCrossAxisBasis_def getAxisSize_def
      strict_ne_Num split: if_splits)

lemma setInitialAxisSizes_axis:
  "getAxisLayoutSize (setInitialAxisSizes s) a = getAxisSize s a"
  "getAxisSize (setInitialAxisSizes s) a = getAxisSize s a"
  by (auto simp: setInitialAxisSizes_def Let_def accessor_defs flexutils_defs)

lemma resetDeferredLayout_axis:
  "getAxisLayoutSize (resetDeferredLayout s) a = getAxisLayoutSize s a"
  "getAxisSize (resetDeferredLayout s) a = getAxisSize s a"
  by (simp_all add: resetDeferredLayout_def flexutils_defs)

lemma fixed_basis_updateTreeLayout:
  assumes "layout_keeps_container c" and "getAxisSize s a \<noteq> Num 0"
  shows "getAxisLayoutSize (updateTreeLayout c s) a = getAxisSize s a"
proof -
  let ?s0 = "setInitialAxisSizes (resetDeferredLayout s)"
  have "getAxisSize ?s0 a \<noteq> Num 0"
    using assms(2) by (simp add: setInitialAxisSizes_axis resetDeferredLayout_axis)
  then have "protected ?s0 a" by (rule fixed_basis_protected)
  with assms(1) have "getAxisLayoutSize (layoutAxes c ?s0) a = getAxisLayoutSize ?s0 a"
    by (rule size_layoutAxes)
  then show ?thesis
    by (simp add: updateTreeLayout_def setInitialAxisSizes_axis resetDeferredLayout_axis)
qed

lemma fixed_basis_updateTreeLayoutWithCurrentAxes:
  assumes "layout_keeps_container c" and "getAxisSize s a \<noteq> Num 0"
  shows "getAxisLayoutSize (updateTreeLayoutWithCurrentAxes c s) a = getAxisLayoutSize s a"
proof -
  have "getAxisSize (resetDeferredLayout s) a \<noteq> Num 0"
    using assms(2) by (simp add: resetDeferredLayout_axis)
  then have "protected (resetDeferredLayout s) a" by (rule fixed_basis_protected)
  with assms(1) have "getAxisLayoutSize (layoutAxes c (resetDeferredLayout s)) a
      = getAxisLayoutSize (resetDeferredLayout s) a"
    by (rule size_layoutAxes)
  then show ?thesis
    by (simp add: updateTreeLayoutWithCurrentAxes_def resetDeferredLayout_axis)
qed

lemma fixed_basis_layoutTree:
  assumes "layout_keeps_container c"
    and "keeps_container (ItemCoordinatesUpdater_finalize c)"
    and "getAxisSize s a \<noteq> Num 0"
  shows "getAxisLayoutSize (layoutTree c s) a
     = (if flexParent s = None then getAxisSize s a else getAxisLayoutSize s a)"
  using assms
  by (simp add: layoutTree_def updateItemCoords_def size_call fixed_basis_updateTreeLayout
      fixed_basis_updateTreeLayoutWithCurrentAxes)

subsection \<open>Non-negative sizes\<close>

lemma nonneg_call: "keeps_nonneg f \<Longrightarrow> nonneg_sizes s \<Longrightarrow> nonneg_sizes (call e f s)"
  by (simp add: keeps_nonneg_def nonneg_sizes_def call_def)

lemma nonneg_setAxisLayoutSize:
  "nonneg_sizes s \<Longrightarrow> non_negative v \<Longrightarrow> nonneg_sizes (setAxisLayoutSize h v s)"
  by (simp add: nonneg_sizes_def setAxisLayoutSize_def)

lemma nonneg_basis:
  "nonneg_sizes s \<Longrightarrow> non_negative (getAxisSize s a)"
  by (simp add: nonneg_sizes_def getAxisSize_def)

lemma nonneg_flags:
  "nonneg_sizes (s\<lparr>resizingMainAxis := b\<rparr>) = nonneg_sizes s"
  "nonneg_sizes (s\<lparr>resizingCrossAxis := b\<rparr>) = nonneg_sizes s"
  "nonneg_sizes (s\<lparr>isLayoutDeferred := b\<rparr>) = nonneg_sizes s"
  "nonneg_sizes (s\<lparr>totalCrossAxisSize := v\<rparr>) = nonneg_sizes s"
  by (simp_all add: nonneg_sizes_def)

lemma nonneg_setInitialAxisSizes:
  assumes "nonneg_sizes s"
  shows "nonneg_sizes (setInitialAxisSizes s)"
proof -
  let ?s1 = "set_mainAxisSize (getMainAxisBasis s) s"
  let ?s2 = "set_crossAxisSize (getCrossAxisBasis ?s1) ?s1"
  have 1: "nonneg_sizes ?s1"
    unfolding set_mainAxisSize_def getMainAxisBasis_def
    by (rule nonneg_setAxisLayoutSize [OF assms nonneg_basis [OF assms]])
  have "nonneg_sizes ?s2"
    unfolding set_crossAxisSize_def getCrossAxisBasis_def
    by (rule nonneg_setAxisLayoutSize [OF 1 nonneg_basis [OF 1]])
  then show ?thesis by (simp add: setInitialAxisSizes_def Let_def nonneg_flags)
qed

lemma nonneg_fitMainAxisSizeToContents:
  "nonneg_collaborators c \<Longrightarrow> nonneg_sizes s \<Longrightarrow>
   nonneg_sizes (fitMainAxisSizeToContents c s)"
  by (simp add: fitMainAxisSizeToContents_def set_mainAxisSize_def nonneg_setAxisLayoutSize
      nonneg_collaborators_def)

lemma nonneg_layoutMainAxis:
  assumes "nonneg_collaborators c" and "nonneg_sizes s"
  shows "nonneg_sizes (layoutMainAxis c s)"
proof -
  from assms(1) have "keeps_nonneg (LineLayouter_layoutLines c)"
    by (simp add: nonneg_collaborators_def)
  then have "nonneg_sizes (layoutLines c s)"
    unfolding layoutLines_def using assms(2) by (rule nonneg_call)
  with assms(1) show ?thesis
    unfolding layoutMainAxis_def by (rule nonneg_fitMainAxisSizeToContents)
qed

lemma nonneg_layoutCrossAxis:
  assumes "nonneg_collaborators c" and "nonneg_sizes s"
  shows "nonneg_sizes (layoutCrossAxis c s)"
proof -
  let ?s1 = "call AlignerInit (ContentAligner_init c) s"
  let ?s2 = "?s1\<lparr>totalCrossAxisSize := ContentAligner_totalCrossAxisSize c ?s1\<rparr>"
  let ?s3 = "fitCrossAxisSizeToContents ?s2"
  from assms(1) have k: "keeps_nonneg (ContentAligner_init c)"
    "keeps_nonneg (ContentAligner_align c)"
    and q: "\<And>t. nonneg_sizes t \<Longrightarrow> non_negative (ContentAligner_totalCrossAxisSize c t)"
    by (simp_all add: nonneg_collaborators_def)
  have 1: "nonneg_sizes ?s1" by (rule nonneg_call [OF k(1) assms(2)])
  then have 2: "nonneg_sizes ?s2" by (simp add: nonneg_flags)
  have "non_negative (totalCrossAxisSize ?s2)" using q [OF 1] by simp
  with 2 have "nonneg_sizes ?s3"
    by (simp add: fitCrossAxisSizeToContents_def set_crossAxisSize_def
        nonneg_setAxisLayoutSize)
  then have "nonneg_sizes (call AlignerAlign (ContentAligner_align c) ?s3)"
    by (rule nonneg_call [OF k(2)])
  then show ?thesis by (simp add: layoutCrossAxis_def Let_def)
qed

lemma nonneg_layoutAxes:
  "nonneg_collaborators c \<Longrightarrow> nonneg_sizes s \<Longrightarrow> nonneg_sizes (layoutAxes c s)"
  by (simp add: layoutAxes_def nonneg_layoutMainAxis nonneg_layoutCrossAxis)

lemma nonneg_updateTreeLayout:
  "nonneg_collaborators c \<Longrightarrow> nonneg_sizes s \<Longrightarrow> nonneg_sizes (updateTreeLayout c s)"
  by (simp add: updateTreeLayout_def resetDeferredLayout_def nonneg_layoutAxes
      nonneg_setInitialAxisSizes nonneg_flags)

lemma nonneg_layoutTree:
  assumes "nonneg_collaborators c" and "nonneg_sizes s"
  shows "nonneg_sizes (layoutTree c s)"
proof -
  from assms(1) have k: "keeps_nonneg (ItemCoordinatesUpdater_finalize c)"
    by (simp add: nonneg_collaborators_def)
  have "nonneg_sizes (if flexParent s \<noteq> None then updateTreeLayoutWithCurrentAxes c s
                      else updateTreeLayout c s)"
    using assms
    by (simp add: updateTreeLayoutWithCurrentAxes_def resetDeferredLayout_def
        nonneg_layoutAxes nonneg_updateTreeLayout nonneg_flags)
  then show ?thesis
    unfolding layoutTree_def updateItemCoords_def by (rule nonneg_call [OF k])
qed

lemma nonneg_deferLayout:
  assumes "nonneg_collaborators c" and "nonneg_sizes s"
  shows "nonneg_sizes (deferLayout c s)"
proof -
  from assms(1) have k: "keeps_nonneg (item_resetNonFlexLayout c)"
    "keeps_nonneg (item_mustUpdateDeferred c)"
    by (simp_all add: nonneg_collaborators_def)
  have "nonneg_sizes (s\<lparr>isLayoutDeferred := True\<rparr>)"
    using assms(2) by (simp add: nonneg_flags)
  then have "nonneg_sizes (call ResetNonFlexLayout (item_resetNonFlexLayout c)
                (s\<lparr>isLayoutDeferred := True\<rparr>))"
    by (rule nonneg_call [OF k(1)])
  then show ?thesis
    unfolding deferLayout_def by (rule nonneg_call [OF k(2)])
qed

lemma nonneg_resizeMainAxis:
  assumes "nonneg_collaborators c" and "nonneg_sizes s" and "non_negative sz"
  shows "nonneg_sizes (resizeMainAxis c sz s)"
proof -
  let ?s1 = "s\<lparr>resizingMainAxis := True\<rparr>"
  have 1: "nonneg_sizes ?s1" using assms(2) by (simp add: nonneg_flags)
  then have "nonneg_sizes (set_mainAxisSize sz ?s1)"
    unfolding set_mainAxisSize_def using assms(3) by (rule nonneg_setAxisLayoutSize)
  with assms(1) have "nonneg_sizes (layoutAxes c (set_mainAxisSize sz ?s1))"
    by (rule nonneg_layoutAxes)
  with 1 show ?thesis by (simp add: resizeMainAxis_def Let_def nonneg_flags)
qed

lemma nonneg_resizeCrossAxis:
  assumes "nonneg_collaborators c" and "nonneg_sizes s" and "non_negative sz"
  shows "nonneg_sizes (resizeCrossAxis c sz s)"
proof -
  let ?s1 = "s\<lparr>resizingCrossAxis := True\<rparr>"
  have 1: "nonneg_sizes ?s1" using assms(2) by (simp add: nonneg_flags)
  then have "nonneg_sizes (set_crossAxisSize sz ?s1)"
    unfolding set_crossAxisSize_def using assms(3) by (rule nonneg_setAxisLayoutSize)
  with assms(1) have "nonneg_sizes (layoutCrossAxis c (set_crossAxisSize sz ?s1))"
    by (rule nonneg_layoutCrossAxis)
  with 1 show ?thesis by (simp add: resizeCrossAxis_def Let_def nonneg_flags)
qed

lemma nonneg_getAxisMinSize:
  "nonneg_collaborators c \<Longrightarrow> nonneg_sizes s \<Longrightarrow> nonneg_sizes (snd (getAxisMinSize c h s))"
  by (simp add: getAxisMinSize_def getMainAxisMinSize_def getCrossAxisMinSize_def Let_def
      nonneg_updateTreeLayout)

lemma nonneg_resolvedI: "nonneg_sizes s \<Longrightarrow> nonneg_resolved s"
  by (simp add: nonneg_sizes_def nonneg_resolved_def mainAxisSize_def crossAxisSize_def
      getAxisLayoutSize_def)

lemma single_line_nonneg: "nonneg_collaborators single_line_collaborators"
  by (simp add: nonneg_collaborators_def keeps_nonneg_def nonneg_sizes_def
      non_negative_def single_line_collaborators_def)

section \<open>The fit-to-contents guards\<close>

text \<open>
  Claim C1 (main-axis fit-to-contents guard). With \<open>s1\<close> the state the line layout
  returns, the main-axis size of the container is set to the line layouter's main-axis
  content size if and only if the layout is not resizing its main axis, the container
  does not wrap and its main-axis basis is zero: then the setter is the one new call and
  the main-axis size is the content size. In every other case \<open>_layoutMainAxis\<close> returns
  \<open>s1\<close> itself, so the main-axis size stays as assigned.
\<close>

theorem main_axis_fit_guard:
  "(let s1 = layoutLines c s;
        s2 = layoutMainAxis c s;
        v = LineLayouter_mainAxisContentSize c s1;
        fit = (\<not> resizingMainAxis s1 \<and> \<not> wrap s1 \<and> getMainAxisBasis s1 = Num 0)
    in (fit \<longrightarrow> s2 = set_mainAxisSize v s1 \<and> mainAxisSize s2 = v \<and>
                 new_events s1 s2 = [SetAxisLayoutSize (horizontal s1) v])
     \<and> (\<not> fit \<longrightarrow> s2 = s1))"
  by (simp add: Let_def layoutMainAxis_def fitMainAxisSizeToContents_def accessor_defs
      flexutils_defs new_events_def strict_ne_Num)

theorem main_axis_fit_guard_witness:
  "layoutMainAxis single_line_collaborators row_of_two
     = set_mainAxisSize (Num 10) (layoutLines single_line_collaborators row_of_two)
   \<and> mainAxisSize (layoutMainAxis single_line_collaborators row_of_two) = Num 10
   \<and> layoutMainAxis single_line_collaborators (row_of_two\<lparr>wrap := True\<rparr>)
     = layoutLines single_line_collaborators (row_of_two\<lparr>wrap := True\<rparr>)
   \<and> layoutMainAxis single_line_collaborators (row_of_two\<lparr>sizeW := Num 30\<rparr>)
     = layoutLines single_line_collaborators (row_of_two\<lparr>sizeW := Num 30\<rparr>)
   \<and> layoutMainAxis single_line_collaborators (row_of_two\<lparr>resizingMainAxis := True\<rparr>)
     = layoutLines single_line_collaborators (row_of_two\<lparr>resizingMainAxis := True\<rparr>)"
  using main_axis_fit_guard [of single_line_collaborators row_of_two]
    main_axis_fit_guard [of single_line_collaborators "row_of_two\<lparr>wrap := True\<rparr>"]
    main_axis_fit_guard [of single_line_collaborators "row_of_two\<lparr>sizeW := Num 30\<rparr>"]
    main_axis_fit_guard [of single_line_collaborators "row_of_two\<lparr>resizingMainAxis := True\<rparr>"]
  by (simp add: Let_def instance_defs pass_defs accessor_defs flexutils_defs new_events_def
      strict_ne_def)



section \<open>Resizing from outside\<close>

text \<open>
  Claim C3 (resize scope). \<open>resizeMainAxis\<close> with a size different (\<^verbatim>\<open>!==\<close>) from the
  current main-axis size runs the main-axis layout and then the cross-axis layout: the
  line layouter, the aligner's \<open>init\<close> and its \<open>align\<close> are called, in that order.
  \<open>resizeCrossAxis\<close> with a size different from the current cross-axis size runs the
  cross-axis layout only: \<open>init\<close> and \<open>align\<close> are called and the line layouter is not.
\<close>

theorem resize_scope:
  "(strict_ne (mainAxisSize s) sz \<longrightarrow>
      resizeMainAxis c sz s
        = (layoutCrossAxis c (layoutMainAxis c
             (set_mainAxisSize sz (s\<lparr>resizingMainAxis := True\<rparr>))))
            \<lparr>resizingMainAxis := False\<rparr> \<and>
      calls_made s (resizeMainAxis c sz s) [LayoutLines, AlignerInit, AlignerAlign])
   \<and> (strict_ne (crossAxisSize s) sz \<longrightarrow>
      resizeCrossAxis c sz s
        = (layoutCrossAxis c (set_crossAxisSize sz (s\<lparr>resizingCrossAxis := True\<rparr>)))
            \<lparr>resizingCrossAxis := False\<rparr> \<and>
      calls_made s (resizeCrossAxis c sz s) [AlignerInit, AlignerAlign])"
  using resizeMainAxis_changed [of s sz c] resizeCrossAxis_changed [of s sz c]
    calls_made_resizeMainAxis [of s sz c] calls_made_resizeCrossAxis [of s sz c]
  by (simp add: layoutAxes_def)

theorem resize_scope_witness:
  "strict_ne (mainAxisSize row_of_two) (Num 7) \<and> strict_ne (crossAxisSize row_of_two) (Num 7)
   \<and> new_events row_of_two (resizeMainAxis single_line_collaborators (Num 7) row_of_two)
       = [SetAxisLayoutSize True (Num 7), LayoutLines, AlignerInit,
          SetAxisLayoutSize False (Num 3), AlignerAlign]
   \<and> new_events row_of_two (resizeCrossAxis single_line_collaborators (Num 7) row_of_two)
       = [SetAxisLayoutSize False (Num 7), AlignerInit, AlignerAlign]
   \<and> calls_made row_of_two (resizeMainAxis single_line_collaborators (Num 7) row_of_two)
       [LayoutLines, AlignerInit, AlignerAlign]
   \<and> calls_made row_of_two (resizeCrossAxis single_line_collaborators (Num 7) row_of_two)
       [AlignerInit, AlignerAlign]"
  using resize_scope [of row_of_two "Num 7" single_line_collaborators]
  by (simp add: Let_def instance_defs pass_defs resize_defs accessor_defs flexutils_defs
      log_defs strict_ne_def)

text \<open>
  The claim C4 does not hold of NaN. After a laid-out row has been resized to NaN its
  main-axis size is NaN, the very value passed, and yet a second resize to NaN runs the
  whole pass again, because \<^verbatim>\<open>NaN !== NaN\<close>: two resizes to the same value run the
  layout twice.
\<close>

theorem resize_idempotence_counterexample:
  "mainAxisSize
     (resizeMainAxis single_line_collaborators NaN
        (layoutTree single_line_collaborators row_of_two)) = NaN
   \<and> collaborator_calls
       (new_events
          (resizeMainAxis single_line_collaborators NaN
             (layoutTree single_line_collaborators row_of_two))
          (resizeMainAxis single_line_collaborators NaN
             (resizeMainAxis single_line_collaborators NaN
                (layoutTree single_line_collaborators row_of_two))))
     = [LayoutLines, AlignerInit, AlignerAlign]
   \<and> collaborator_calls
       (new_events (layoutTree single_line_collaborators row_of_two)
          (resizeMainAxis single_line_collaborators NaN
             (resizeMainAxis single_line_collaborators NaN
                (layoutTree single_line_collaborators row_of_two))))
     = [LayoutLines, AlignerInit, AlignerAlign, LayoutLines, AlignerInit, AlignerAlign]"
  by (simp add: Let_def instance_defs pass_defs resize_defs accessor_defs flexutils_defs
      log_defs strict_ne_def)

text \<open>
  Claim C4, amended (resize idempotence). A resize to the size the axis already has,
  when that size is not NaN, makes no call at all and returns the state it was given
  with the resizing flag cleared: the resolved sizes and everything the collaborators
  own are unchanged. With collaborators that keep the container, a second resize to the
  same value other than NaN returns the state the first one left, so that two resizes
  to a value other than NaN that the axis did not have run the layout pass exactly
  once. A resize to NaN runs its pass on every call.
\<close>

theorem resize_idempotence:
  "(mainAxisSize s = sz \<and> sz \<noteq> NaN \<longrightarrow>
      resizeMainAxis c sz s = s\<lparr>resizingMainAxis := False\<rparr> \<and>
      trace (resizeMainAxis c sz s) = trace s)
   \<and> (crossAxisSize s = sz \<and> sz \<noteq> NaN \<longrightarrow>
      resizeCrossAxis c sz s = s\<lparr>resizingCrossAxis := False\<rparr> \<and>
      trace (resizeCrossAxis c sz s) = trace s)
   \<and> (layout_keeps_container c \<and> sz \<noteq> NaN \<longrightarrow>
      resizeMainAxis c sz (resizeMainAxis c sz s) = resizeMainAxis c sz s \<and>
      resizeCrossAxis c sz (resizeCrossAxis c sz s) = resizeCrossAxis c sz s)
   \<and> (layout_keeps_container c \<and> sz \<noteq> NaN \<and> mainAxisSize s \<noteq> sz \<longrightarrow>
      calls_made s (resizeMainAxis c sz (resizeMainAxis c sz s))
        [LayoutLines, AlignerInit, AlignerAlign])
   \<and> (layout_keeps_container c \<and> sz \<noteq> NaN \<and> crossAxisSize s \<noteq> sz \<longrightarrow>
      calls_made s (resizeCrossAxis c sz (resizeCrossAxis c sz s))
        [AlignerInit, AlignerAlign])
   \<and> calls_made s (resizeMainAxis c NaN s) [LayoutLines, AlignerInit, AlignerAlign]
   \<and> calls_made s (resizeCrossAxis c NaN s) [AlignerInit, AlignerAlign]"
proof -
  have same: "resizeMainAxis c sz s = s\<lparr>resizingMainAxis := False\<rparr>"
    if "mainAxisSize s = sz" "sz \<noteq> NaN"
    using that by (intro resizeMainAxis_same) (simp add: not_strict_ne)
  have same': "resizeCrossAxis c sz s = s\<lparr>resizingCrossAxis := False\<rparr>"
    if "crossAxisSize s = sz" "sz \<noteq> NaN"
    using that by (intro resizeCrossAxis_same) (simp add: not_strict_ne)
  have once: "calls_made s (resizeMainAxis c sz (resizeMainAxis c sz s))
        [LayoutLines, AlignerInit, AlignerAlign]"
    if "layout_keeps_container c" "sz \<noteq> NaN" "mainAxisSize s \<noteq> sz"
    using that calls_made_resizeMainAxis [of s sz c]
    by (simp add: resizeMainAxis_twice strict_ne_def)
  have once': "calls_made s (resizeCrossAxis c sz (resizeCrossAxis c sz s))
        [AlignerInit, AlignerAlign]"
    if "layout_keeps_container c" "sz \<noteq> NaN" "crossAxisSize s \<noteq> sz"
    using that calls_made_resizeCrossAxis [of s sz c]
    by (simp add: resizeCrossAxis_twice strict_ne_def)
  have nan: "calls_made s (resizeMainAxis c NaN s) [LayoutLines, AlignerInit, AlignerAlign]"
    "calls_made s (resizeCrossAxis c NaN s) [AlignerInit, AlignerAlign]"
    by (simp_all add: calls_made_resizeMainAxis calls_made_resizeCrossAxis strict_ne_NaN)
  show ?thesis
    using same same' once once' nan resizeMainAxis_twice [of c sz s]
      resizeCrossAxis_twice [of c sz s]
    by simp
qed

theorem resize_idempotence_witness:
  "layout_keeps_container single_line_collaborators
   \<and> mainAxisSize (layoutTree single_line_collaborators row_of_two) = Num 10
   \<and> resizeMainAxis single_line_collaborators (Num 10)
       (layoutTree single_line_collaborators row_of_two)
       = layoutTree single_line_collaborators row_of_two
   \<and> crossAxisSize (layoutTree single_line_collaborators row_of_two) = Num 3
   \<and> resizeCrossAxis single_line_collaborators (Num 3)
       (layoutTree single_line_collaborators row_of_two)
       = layoutTree single_line_collaborators row_of_two
   \<and> mainAxisSize (layoutTree single_line_collaborators row_of_two) \<noteq> Num 7
   \<and> new_events (layoutTree single_line_collaborators row_of_two)
       (resizeMainAxis single_line_collaborators (Num 7)
         (resizeMainAxis single_line_collaborators (Num 7)
           (layoutTree single_line_collaborators row_of_two)))
       = [SetAxisLayoutSize True (Num 7), LayoutLines, AlignerInit,
          SetAxisLayoutSize False (Num 3), AlignerAlign]
   \<and> crossAxisSize (layoutTree single_line_collaborators row_of_two) \<noteq> Num 7
   \<and> new_events (layoutTree single_line_collaborators row_of_two)
       (resizeCrossAxis single_line_collaborators (Num 7)
         (resizeCrossAxis single_line_collaborators (Num 7)
           (layoutTree single_line_collaborators row_of_two)))
       = [SetAxisLayoutSize False (Num 7), AlignerInit, AlignerAlign]"
  using resize_idempotence [of "layoutTree single_line_collaborators row_of_two" "Num 10"
      single_line_collaborators]
    resize_idempotence [of "layoutTree single_line_collaborators row_of_two" "Num 3"
      single_line_collaborators]
    resize_idempotence [of "layoutTree single_line_collaborators row_of_two" "Num 7"
      single_line_collaborators]
    single_line_keeps_container
  by (simp add: Let_def instance_defs pass_defs resize_defs accessor_defs flexutils_defs
      log_defs strict_ne_def)

section \<open>The entry points\<close>

text \<open>
  Claim C5 (dispatch of \<open>layoutTree\<close>). On a node with a flex parent \<open>layoutTree\<close> lays
  out the axes from the current axis sizes: only the deferred flag is cleared first and
  the first new call is the line layout. On a node without a flex parent it runs
  \<open>updateTreeLayout\<close>, whose first calls set both axis sizes from the configured basis.
  In both cases the result is what the coordinates updater's \<open>finalize\<close> makes of the
  state the layout left, and that call is the last one logged.
\<close>

theorem layoutTree_dispatch:
  "(flexParent s \<noteq> None \<longrightarrow>
      (let t = layoutAxes c (s\<lparr>isLayoutDeferred := False\<rparr>)
       in layoutTree c s
            = (ItemCoordinatesUpdater_finalize c t)\<lparr>trace := trace t @ [Finalize]\<rparr>) \<and>
      take 1 (new_events s (layoutTree c s)) = [LayoutLines])
   \<and> (flexParent s = None \<longrightarrow>
      (let t = updateTreeLayout c s
       in layoutTree c s
            = (ItemCoordinatesUpdater_finalize c t)\<lparr>trace := trace t @ [Finalize]\<rparr>) \<and>
      take 3 (new_events s (layoutTree c s))
        = [SetAxisLayoutSize (horizontal s) (getMainAxisBasis s),
           SetAxisLayoutSize (\<not> horizontal s) (getCrossAxisBasis s), LayoutLines])
   \<and> calls_made s (layoutTree c s) [LayoutLines, AlignerInit, AlignerAlign, Finalize]
   \<and> last (trace (layoutTree c s)) = Finalize"
  using new_events_layoutTree_subtree [of s c] new_events_layoutTree_root [of s c]
    calls_made_layoutTree [of s c] trace_layoutTree_last [of c s]
  by (simp add: layoutTree_def updateItemCoords_def call_def
      updateTreeLayoutWithCurrentAxes_def resetDeferredLayout_def Let_def)

theorem layoutTree_dispatch_witness:
  "new_events fixed_row_item (layoutTree single_line_collaborators fixed_row_item)
     = [LayoutLines, AlignerInit, SetAxisLayoutSize False (Num 3), AlignerAlign, Finalize]
   \<and> mainAxisSize (layoutTree single_line_collaborators fixed_row_item) = Num 0
   \<and> itemCoords (world fixed_row_item) = []
   \<and> itemCoords (world (layoutTree single_line_collaborators fixed_row_item)) = [0, 5]
   \<and> new_events row_of_two (layoutTree single_line_collaborators row_of_two)
     = [SetAxisLayoutSize True (Num 0), SetAxisLayoutSize False (Num 0), LayoutLines,
        SetAxisLayoutSize True (Num 10), AlignerInit, SetAxisLayoutSize False (Num 3),
        AlignerAlign, Finalize]
   \<and> itemCoords (world row_of_two) = []
   \<and> itemCoords (world (layoutTree single_line_collaborators row_of_two)) = [0, 5]"
  using layoutTree_dispatch [of fixed_row_item single_line_collaborators]
    layoutTree_dispatch [of row_of_two single_line_collaborators]
  by (simp add: Let_def instance_defs fixed_row_item_def pass_defs accessor_defs
      flexutils_defs log_defs strict_ne_def)

text \<open>
  Claim C6 (step order of \<open>updateTreeLayout\<close>). The pass starts from the state \<open>s0\<close>
  whose deferred flag is cleared, whose two axis sizes are the configured bases (set in
  the order main, cross) and whose resizing flags are cleared; the main-axis layout runs
  on \<open>s0\<close> and calls the line layouter; the cross-axis layout runs on the state the
  main-axis layout returns, and its calls to the aligner come after the line layout.
\<close>

theorem updateTreeLayout_order:
  "(let s0 = setInitialAxisSizes (resetDeferredLayout s);
        s1 = layoutMainAxis c s0
    in updateTreeLayout c s = layoutCrossAxis c s1
     \<and> \<not> isLayoutDeferred s0
     \<and> mainAxisSize s0 = getMainAxisBasis s \<and> crossAxisSize s0 = getCrossAxisBasis s
     \<and> \<not> resizingMainAxis s0 \<and> \<not> resizingCrossAxis s0
     \<and> trace s0 = trace s @ [SetAxisLayoutSize (horizontal s) (getMainAxisBasis s),
                              SetAxisLayoutSize (\<not> horizontal s) (getCrossAxisBasis s)]
     \<and> calls_made s0 s1 [LayoutLines]
     \<and> calls_made s1 (updateTreeLayout c s) [AlignerInit, AlignerAlign])"
proof -
  let ?s0 = "setInitialAxisSizes (resetDeferredLayout s)"
  let ?s1 = "layoutMainAxis c ?s0"
  have eq: "updateTreeLayout c s = layoutCrossAxis c ?s1"
    by (simp add: updateTreeLayout_def layoutAxes_def)
  have fields: "\<not> isLayoutDeferred ?s0" "mainAxisSize ?s0 = getMainAxisBasis s"
    "crossAxisSize ?s0 = getCrossAxisBasis s" "\<not> resizingMainAxis ?s0"
    "\<not> resizingCrossAxis ?s0"
    by (simp_all add: setInitialAxisSizes_def resetDeferredLayout_def Let_def accessor_defs
        flexutils_defs)
  have tr: "trace ?s0 = trace s @ [SetAxisLayoutSize (horizontal s) (getMainAxisBasis s),
                              SetAxisLayoutSize (\<not> horizontal s) (getCrossAxisBasis s)]"
    by (simp add: trace_setInitialAxisSizes)
       (simp add: resetDeferredLayout_def getMainAxisBasis_def getCrossAxisBasis_def
          getAxisSize_def)
  have m: "calls_made ?s0 ?s1 [LayoutLines]" by (rule calls_made_layoutMainAxis)
  have x: "calls_made ?s1 (updateTreeLayout c s) [AlignerInit, AlignerAlign]"
    unfolding eq by (rule calls_made_layoutCrossAxis)
  from eq fields tr m x show ?thesis unfolding Let_def by blast
qed

theorem updateTreeLayout_order_witness:
  "trace (updateTreeLayout single_line_collaborators
            (row_of_two\<lparr>isLayoutDeferred := True, layoutW := Num 4, sizeH := Num 8\<rparr>))
     = [SetAxisLayoutSize True (Num 0), SetAxisLayoutSize False (Num 8), LayoutLines,
        SetAxisLayoutSize True (Num 10), AlignerInit, AlignerAlign]
   \<and> \<not> isLayoutDeferred (updateTreeLayout single_line_collaborators
            (row_of_two\<lparr>isLayoutDeferred := True, layoutW := Num 4, sizeH := Num 8\<rparr>))
   \<and> trace (updateTreeLayout single_line_collaborators
            (row_of_two\<lparr>isLayoutDeferred := True, layoutW := Num 4\<rparr>))
     = [SetAxisLayoutSize True (Num 0), SetAxisLayoutSize False (Num 0), LayoutLines,
        SetAxisLayoutSize True (Num 10), AlignerInit, SetAxisLayoutSize False (Num 3),
        AlignerAlign]
   \<and> crossAxisSize (updateTreeLayout single_line_collaborators
            (row_of_two\<lparr>isLayoutDeferred := True, layoutW := Num 4\<rparr>)) = Num 3"
  using updateTreeLayout_order [where c = single_line_collaborators
      and s = "row_of_two\<lparr>isLayoutDeferred := True, layoutW := Num 4, sizeH := Num 8\<rparr>"]
    updateTreeLayout_order [where c = single_line_collaborators
      and s = "row_of_two\<lparr>isLayoutDeferred := True, layoutW := Num 4\<rparr>"]
  by (simp add: Let_def instance_defs pass_defs accessor_defs flexutils_defs log_defs
      strict_ne_def)

text \<open>
  Claim C7 (deferred minimum size). On a deferred layout \<open>getAxisMinSize\<close> runs
  \<open>updateTreeLayout\<close> once and returns the line layouter's minimum size, on the axis asked
  for, read in the state that pass leaves. With collaborators that keep the container
  this is the value, and the state, that \<open>getAxisMinSize\<close> gives when it is called after
  \<open>updateTreeLayout\<close> has been run directly, and the layout is no longer deferred.
\<close>

theorem deferred_min_size:
  "(isLayoutDeferred s \<longrightarrow>
      getAxisMinSize c h s
        = ((if h = horizontal s then LineLayouter_mainAxisMinSize c
            else LineLayouter_crossAxisMinSize c) (updateTreeLayout c s),
           updateTreeLayout c s) \<and>
      calls_made s (snd (getAxisMinSize c h s)) [LayoutLines, AlignerInit, AlignerAlign])
   \<and> (isLayoutDeferred s \<and> layout_keeps_container c \<longrightarrow>
      fst (getAxisMinSize c h s) = fst (getAxisMinSize c h (updateTreeLayout c s)) \<and>
      snd (getAxisMinSize c h s) = snd (getAxisMinSize c h (updateTreeLayout c s)) \<and>
      snd (getAxisMinSize c h (updateTreeLayout c s)) = updateTreeLayout c s \<and>
      \<not> isLayoutDeferred (snd (getAxisMinSize c h s)))"
proof -
  have a: "getAxisMinSize c h s
        = ((if h = horizontal s then LineLayouter_mainAxisMinSize c
            else LineLayouter_crossAxisMinSize c) (updateTreeLayout c s),
           updateTreeLayout c s)" if "isLayoutDeferred s"
    using that
    by (auto simp: getAxisMinSize_def getMainAxisMinSize_def getCrossAxisMinSize_def Let_def)
  have b: "getAxisMinSize c h (updateTreeLayout c s)
        = ((if h = horizontal s then LineLayouter_mainAxisMinSize c
            else LineLayouter_crossAxisMinSize c) (updateTreeLayout c s),
           updateTreeLayout c s)" if "layout_keeps_container c"
    using updateTreeLayout_setup [OF that, of s]
    by (auto simp: getAxisMinSize_def getMainAxisMinSize_def getCrossAxisMinSize_def Let_def)
  show ?thesis
    using a b calls_made_updateTreeLayout [of s c] updateTreeLayout_setup(2) [of c s]
    by simp
qed

theorem deferred_min_size_witness:
  "isLayoutDeferred (deferLayout single_line_collaborators row_of_two)
   \<and> layout_keeps_container single_line_collaborators
   \<and> getAxisMinSize single_line_collaborators True
       (deferLayout single_line_collaborators row_of_two)
     = (Num 10, updateTreeLayout single_line_collaborators
              (deferLayout single_line_collaborators row_of_two))
   \<and> fst (getAxisMinSize single_line_collaborators False
       (deferLayout single_line_collaborators row_of_two)) = Num 3
   \<and> fst (getAxisMinSize single_line_collaborators True
       (updateTreeLayout single_line_collaborators
          (deferLayout single_line_collaborators row_of_two))) = Num 10"
  using deferred_min_size [of "deferLayout single_line_collaborators row_of_two"
      single_line_collaborators True]
    deferred_min_size [of "deferLayout single_line_collaborators row_of_two"
      single_line_collaborators False]
    single_line_keeps_container
  by (simp add: Let_def instance_defs pass_defs query_defs accessor_defs flexutils_defs
      log_defs strict_ne_def)

section \<open>Invariants of the resolved sizes\<close>

text \<open>
  The claim C8 read as "after every layout call other than a resize the resolved size
  equals the basis" does not hold: a row that is a flex item with a fixed width of 100,
  shrunk to 50 by its parent, keeps the width 50 through \<open>layoutTree\<close>.
\<close>

theorem fixed_basis_stability_counterexample:
  "getMainAxisBasis shrunk_row_item = Num 100
   \<and> mainAxisSize (layoutTree single_line_collaborators shrunk_row_item) = Num 50
   \<and> mainAxisSize (layoutTree single_line_collaborators shrunk_row_item)
       \<noteq> getMainAxisBasis shrunk_row_item"
  by (simp add: Let_def instance_defs fixed_row_item_def shrunk_row_item_def pass_defs
      resize_defs accessor_defs flexutils_defs strict_ne_def)

text \<open>
  Claim C8, amended (fixed basis stability). Let the collaborators keep the container
  and let the node have a non-zero basis on the physical axis \<open>a\<close> (the main axis when
  \<open>a = horizontal s\<close>, the cross axis otherwise). Then \<open>updateTreeLayout\<close>, and \<open>layoutTree\<close>
  on a node without a flex parent, leave the resolved size on that axis equal to the
  basis; \<open>layoutTree\<close> on a node with a flex parent and the two fit-to-contents steps
  leave the resolved size on that axis as they found it. None of this depends on the
  content.
\<close>

theorem fixed_basis_stability:
  "layout_keeps_container c \<Longrightarrow> keeps_container (ItemCoordinatesUpdater_finalize c) \<Longrightarrow>
   getAxisSize s a \<noteq> Num 0 \<Longrightarrow>
     getAxisLayoutSize (updateTreeLayout c s) a = getAxisSize s a
   \<and> getAxisLayoutSize (layoutTree c s) a
       = (if flexParent s = None then getAxisSize s a else getAxisLayoutSize s a)
   \<and> getAxisLayoutSize (fitMainAxisSizeToContents c s) a = getAxisLayoutSize s a
   \<and> getAxisLayoutSize (fitCrossAxisSizeToContents s) a = getAxisLayoutSize s a"
  by (simp add: fixed_basis_updateTreeLayout fixed_basis_layoutTree fixed_basis_protected
      size_fitMainAxisSizeToContents size_fitCrossAxisSizeToContents)

theorem fixed_basis_stability_witness:
  "layout_keeps_container single_line_collaborators
   \<and> keeps_container (ItemCoordinatesUpdater_finalize single_line_collaborators)
   \<and> getAxisSize shrunk_row_item True \<noteq> Num 0
   \<and> getAxisLayoutSize (updateTreeLayout single_line_collaborators shrunk_row_item) True
       = Num 100
   \<and> getAxisLayoutSize (layoutTree single_line_collaborators shrunk_row_item) True = Num 50
   \<and> getAxisLayoutSize
       (layoutTree single_line_collaborators (shrunk_row_item\<lparr>flexParent := None\<rparr>)) True
       = Num 100"
  using fixed_basis_stability [OF single_line_keeps_container
      single_line_finalize_keeps_container, of shrunk_row_item True]
    fixed_basis_stability [OF single_line_keeps_container
      single_line_finalize_keeps_container, of "shrunk_row_item\<lparr>flexParent := None\<rparr>" True]
    single_line_keeps_container single_line_finalize_keeps_container
  by (simp add: Let_def instance_defs fixed_row_item_def shrunk_row_item_def pass_defs
      resize_defs accessor_defs flexutils_defs strict_ne_def)

text \<open>
  The claim C9 does not hold for every call: nothing clamps a size, and a resize of a
  laid-out row to \<open>- 5\<close> leaves the main-axis size \<open>- 5\<close>.
\<close>

theorem non_negativity_counterexample:
  "mainAxisSize
      (resizeMainAxis single_line_collaborators (Num (- 5))
         (layoutTree single_line_collaborators row_of_two)) = Num (- 5)
   \<and> \<not> non_negative (mainAxisSize
      (resizeMainAxis single_line_collaborators (Num (- 5))
         (layoutTree single_line_collaborators row_of_two)))"
  by (simp add: Let_def instance_defs pass_defs resize_defs accessor_defs flexutils_defs
      strict_ne_def non_negative_def)

text \<open>
  Claim C9, amended (non-negative sizes). When the configured and the resolved sizes of
  the node are non-negative, the collaborators keep them so and report non-negative
  content sizes, and the size passed to a resize is non-negative, then after each of
  \<open>layoutTree\<close>, \<open>updateTreeLayout\<close>, \<open>resizeMainAxis\<close>, \<open>resizeCrossAxis\<close>,
  \<open>getAxisMinSize\<close> and \<open>deferLayout\<close> the sizes are non-negative again, and so are the
  resolved main-axis and cross-axis sizes.
\<close>

theorem non_negativity:
  "nonneg_collaborators c \<Longrightarrow> nonneg_sizes s \<Longrightarrow> non_negative sz \<Longrightarrow>
     nonneg_sizes (layoutTree c s) \<and> nonneg_resolved (layoutTree c s)
   \<and> nonneg_sizes (updateTreeLayout c s) \<and> nonneg_resolved (updateTreeLayout c s)
   \<and> nonneg_sizes (resizeMainAxis c sz s) \<and> nonneg_resolved (resizeMainAxis c sz s)
   \<and> nonneg_sizes (resizeCrossAxis c sz s) \<and> nonneg_resolved (resizeCrossAxis c sz s)
   \<and> nonneg_sizes (snd (getAxisMinSize c h s)) \<and> nonneg_resolved (snd (getAxisMinSize c h s))
   \<and> nonneg_sizes (deferLayout c s) \<and> nonneg_resolved (deferLayout c s)"
  by (simp add: nonneg_layoutTree nonneg_updateTreeLayout nonneg_resizeMainAxis
      nonneg_resizeCrossAxis nonneg_getAxisMinSize nonneg_deferLayout nonneg_resolvedI)

theorem non_negativity_witness:
  "nonneg_collaborators single_line_collaborators \<and> nonneg_sizes row_of_two
   \<and> non_negative (Num 7)
   \<and> mainAxisSize (resizeMainAxis single_line_collaborators (Num 7) row_of_two) = Num 7
   \<and> crossAxisSize (resizeMainAxis single_line_collaborators (Num 7) row_of_two) = Num 3
   \<and> nonneg_resolved (resizeMainAxis single_line_collaborators (Num 7) row_of_two)
   \<and> nonneg_resolved (layoutTree single_line_collaborators row_of_two)"
  using non_negativity [OF single_line_nonneg, of row_of_two "Num 7" True] single_line_nonneg
  by (simp add: Let_def instance_defs pass_defs resize_defs accessor_defs flexutils_defs
      nonneg_sizes_def nonneg_resolved_def non_negative_def strict_ne_def)

section \<open>Minimum sizes per axis\<close>

text \<open>
  Claim C10 (axis dispatch of \<open>getAxisMinSize\<close>). \<open>getAxisMinSize h\<close> answers with the
  main-axis minimum size exactly when \<open>h\<close> is the container's own orientation and with
  the cross-axis minimum size otherwise: a row answers the main-axis minimum for
  \<open>True\<close>, a column for \<open>False\<close>.
\<close>

theorem getAxisMinSize_dispatch:
  "getAxisMinSize c h s
     = (if h = horizontal s then getMainAxisMinSize c s else getCrossAxisMinSize c s)
   \<and> fst (getAxisMinSize c h s)
     = (let s1 = (if isLayoutDeferred s then updateTreeLayout c s else s)
        in if h = horizontal s then LineLayouter_mainAxisMinSize c s1
           else LineLayouter_crossAxisMinSize c s1)
   \<and> (horizontal s \<longrightarrow> getAxisMinSize c True s = getMainAxisMinSize c s
                       \<and> getAxisMinSize c False s = getCrossAxisMinSize c s)
   \<and> (\<not> horizontal s \<longrightarrow> getAxisMinSize c False s = getMainAxisMinSize c s
                         \<and> getAxisMinSize c True s = getCrossAxisMinSize c s)"
  by (auto simp: getAxisMinSize_def getMainAxisMinSize_def getCrossAxisMinSize_def Let_def)

theorem getAxisMinSize_dispatch_witness:
  "fst (getAxisMinSize single_line_collaborators True
          (layoutTree single_line_collaborators row_of_two)) = Num 10
   \<and> fst (getAxisMinSize single_line_collaborators False
          (layoutTree single_line_collaborators row_of_two)) = Num 3
   \<and> fst (getAxisMinSize single_line_collaborators False
          (layoutTree single_line_collaborators (row_of_two\<lparr>horizontal := False\<rparr>))) = Num 10
   \<and> fst (getAxisMinSize single_line_collaborators True
          (layoutTree single_line_collaborators (row_of_two\<lparr>horizontal := False\<rparr>))) = Num 3"
  using getAxisMinSize_dispatch [of single_line_collaborators True
      "layoutTree single_line_collaborators row_of_two"]
    getAxisMinSize_dispatch [of single_line_collaborators False
      "layoutTree single_line_collaborators row_of_two"]
    getAxisMinSize_dispatch [of single_line_collaborators False
      "layoutTree single_line_collaborators (row_of_two\<lparr>horizontal := False\<rparr>)"]
    getAxisMinSize_dispatch [of single_line_collaborators True
      "layoutTree single_line_collaborators (row_of_two\<lparr>horizontal := False\<rparr>)"]
  by (simp add: Let_def instance_defs pass_defs query_defs accessor_defs flexutils_defs
      strict_ne_def)

end
